theory Spec2Isabelle
  imports Complex_Main "HOL-Library.Sublist" "HOL-Library.Monad_Syntax"
begin

section \<open>Python values used by the dashboard\<close>

text \<open>
  The dashboard core of \<^verbatim>\<open>src/streamlit.py\<close> consists of
  \<^verbatim>\<open>parse_supply_chain_data\<close>, \<^verbatim>\<open>analyze_critical_issues\<close>,
  \<^verbatim>\<open>create_summary_report\<close> and \<^verbatim>\<open>export_report_to_excel\<close>.
  They compute with Python integers, with binary64 floating-point numbers
  (true division, multiplication by 100, the comparison with the literal 0.3, and the
  format specifications \<^verbatim>\<open>.1f\<close> and \<^verbatim>\<open>.1%\<close>) and with strings.

  Strings are modelled as lists of bytes holding the UTF-8 encoding of the Python
  string. The only string operations of the source are concatenation, equality and the
  search for an ASCII pattern, and all three agree on code points and on their UTF-8
  encoding.
\<close>

datatype py_error = ZeroDivisionError | OverflowError

subsection \<open>Binary64 numbers\<close>

text \<open>
  A float is a finite binary64 number, given by its exact rational value (with
  \<open>Finite 0\<close> for \<open>+0.0\<close>), the negative zero, an infinity, or a NaN.
\<close>

datatype pyfloat = Finite rat | NegZero | PosInf | NegInf | NaN

text \<open>The number of binary digits of a positive integer (\<^verbatim>\<open>int.bit_length\<close>).\<close>

function bit_length :: "int \<Rightarrow> int" where
  "bit_length n = (if n \<le> 0 then 0 else 1 + bit_length (n div 2))"
  by pat_completeness auto
termination
  by (relation "measure nat") auto

declare bit_length.simps [simp del]

definition pow2 :: "int \<Rightarrow> rat" where
  "pow2 k = (if 0 \<le> k then 2 ^ nat k else 1 / 2 ^ nat (- k))"

text \<open>For positive \<open>x\<close>, the exponent \<open>k\<close> with \<open>2 ^ k \<le> x < 2 ^ (k + 1)\<close>.\<close>

definition floor_log2 :: "rat \<Rightarrow> int" where
  "floor_log2 x =
     (let (p, q) = quotient_of x;
          k = bit_length p - bit_length q
      in if pow2 k \<le> x then k else k - 1)"

definition round_half_even :: "rat \<Rightarrow> int" where
  "round_half_even x =
     (let f = \<lfloor>x\<rfloor>; r = x - of_int f
      in if r < 1 / 2 then f else if 1 / 2 < r then f + 1
         else if even f then f else f + 1)"

text \<open>
  Rounding of an exact result to binary64, to nearest with ties to even. The result is
  \<open>m * 2 ^ e\<close> with a significand \<open>m\<close> of at most 53 bits; the least
  exponent \<open>e\<close> of a unit in the last place is \<open>- 1074\<close> (subnormal numbers),
  and a result of magnitude \<open>2 ^ 1024\<close> or more, that is \<open>971 < e\<close> or
  \<open>m = 2 ^ 53\<close> at \<open>e = 971\<close>, overflows to an infinity.
\<close>

definition round_double :: "rat \<Rightarrow> pyfloat" where
  "round_double x =
     (if x = 0 then Finite 0
      else let a = \<bar>x\<bar>;
               e = max (floor_log2 a - 52) (- 1074);
               m = round_half_even (a / pow2 e)
           in if 971 < e \<or> (e = 971 \<and> 2 ^ 53 \<le> m) then (if x < 0 then NegInf else PosInf)
              else if m = 0 then (if x < 0 then NegZero else Finite 0)
              else Finite (if x < 0 then - (of_int m * pow2 e) else of_int m * pow2 e))"

definition is_nan :: "pyfloat \<Rightarrow> bool" where
  "is_nan x = (case x of NaN \<Rightarrow> True | _ \<Rightarrow> False)"

definition is_inf :: "pyfloat \<Rightarrow> bool" where
  "is_inf x = (case x of PosInf \<Rightarrow> True | NegInf \<Rightarrow> True | _ \<Rightarrow> False)"

definition is_zero :: "pyfloat \<Rightarrow> bool" where
  "is_zero x = (case x of Finite r \<Rightarrow> r = 0 | NegZero \<Rightarrow> True | _ \<Rightarrow> False)"

definition sign_bit :: "pyfloat \<Rightarrow> bool" where
  "sign_bit x = (case x of Finite r \<Rightarrow> r < 0 | NegZero \<Rightarrow> True | NegInf \<Rightarrow> True | _ \<Rightarrow> False)"

definition float_val :: "pyfloat \<Rightarrow> rat" where
  "float_val x = (case x of Finite r \<Rightarrow> r | _ \<Rightarrow> 0)"

text \<open>IEEE 754 division and multiplication; neither raises in Python's float or numpy's
  float64 arithmetic once both operands are floats (numpy only warns).\<close>

definition float_div :: "pyfloat \<Rightarrow> pyfloat \<Rightarrow> pyfloat" where
  "float_div x y =
     (if is_nan x \<or> is_nan y then NaN
      else if is_inf x \<and> is_inf y then NaN
      else if is_zero x \<and> is_zero y then NaN
      else if is_inf x \<or> is_zero y then (if sign_bit x \<noteq> sign_bit y then NegInf else PosInf)
      else if is_zero x \<or> is_inf y then (if sign_bit x \<noteq> sign_bit y then NegZero else Finite 0)
      else round_double (float_val x / float_val y))"

definition float_mul :: "pyfloat \<Rightarrow> pyfloat \<Rightarrow> pyfloat" where
  "float_mul x y =
     (if is_nan x \<or> is_nan y then NaN
      else if (is_inf x \<and> is_zero y) \<or> (is_zero x \<and> is_inf y) then NaN
      else if is_inf x \<or> is_inf y then (if sign_bit x \<noteq> sign_bit y then NegInf else PosInf)
      else if is_zero x \<or> is_zero y then (if sign_bit x \<noteq> sign_bit y then NegZero else Finite 0)
      else round_double (float_val x * float_val y))"

text \<open>The comparison \<^verbatim>\<open>x > y\<close> of two floats: false when either is a NaN, and the
  two zeros are equal.\<close>

definition float_rank :: "pyfloat \<Rightarrow> int" where
  "float_rank x = (case x of PosInf \<Rightarrow> 1 | NegInf \<Rightarrow> - 1 | _ \<Rightarrow> 0)"

definition float_gt :: "pyfloat \<Rightarrow> pyfloat \<Rightarrow> bool" where
  "float_gt x y =
     (\<not> is_nan x \<and> \<not> is_nan y \<and>
      (float_rank y < float_rank x \<or>
       (float_rank x = float_rank y \<and> float_val y < float_val x)))"

text \<open>
  \<^verbatim>\<open>a / b\<close> on two Python integers (CPython's \<^verbatim>\<open>long_true_divide\<close>): a zero
  divisor raises \<^verbatim>\<open>ZeroDivisionError\<close>; otherwise the result is the exact quotient
  correctly rounded, a zero quotient takes the sign of the divisor, and a result too
  large for a float raises \<^verbatim>\<open>OverflowError\<close>.
\<close>

definition py_truediv :: "int \<Rightarrow> int \<Rightarrow> py_error + pyfloat" where
  "py_truediv a b =
     (if b = 0 then Inl ZeroDivisionError
      else if a = 0 then Inr (if b < 0 then NegZero else Finite 0)
      else let r = round_double (of_int a / of_int b)
           in if is_inf r then Inl OverflowError else Inr r)"

text \<open>
  \<^verbatim>\<open>a / b\<close> on two numpy integer scalars, as returned by a column's
  \<^verbatim>\<open>.sum()\<close>: both are converted to float64 and divided there, so a zero divisor
  yields an infinity or a NaN (with a warning) instead of an exception.
\<close>

definition np_true_divide :: "int \<Rightarrow> int \<Rightarrow> pyfloat" where
  "np_true_divide a b = float_div (round_double (of_int a)) (round_double (of_int b))"

subsection \<open>Formatting\<close>

definition digit_char :: "int \<Rightarrow> char" where
  "digit_char d = ''0123456789'' ! nat d"

text \<open>The decimal digits of a natural number, given as an integer.\<close>

function str_nat :: "int \<Rightarrow> string" where
  "str_nat n = (if n < 10 then [digit_char n] else str_nat (n div 10) @ [digit_char (n mod 10)])"
  by pat_completeness auto
termination
  by (relation "measure nat") auto

declare str_nat.simps [simp del]

text \<open>\<^verbatim>\<open>str(i)\<close>, which is also what an f-string field without a format
  specification yields for an integer.\<close>

definition str_int :: "int \<Rightarrow> string" where
  "str_int i = (if i < 0 then ''-'' @ str_nat (- i) else str_nat i)"

text \<open>The format specification \<^verbatim>\<open>,\<close> on an integer: decimal digits in groups of
  three, separated by commas.\<close>

definition pad3 :: "int \<Rightarrow> string" where
  "pad3 n = [digit_char (n div 100), digit_char (n div 10 mod 10), digit_char (n mod 10)]"

function comma_nat :: "int \<Rightarrow> string" where
  "comma_nat n =
     (if n < 1000 then str_nat n else comma_nat (n div 1000) @ '','' @ pad3 (n mod 1000))"
  by pat_completeness auto
termination
  by (relation "measure nat") auto

declare comma_nat.simps [simp del]

definition format_comma :: "int \<Rightarrow> string" where
  "format_comma i = (if i < 0 then ''-'' @ comma_nat (- i) else comma_nat i)"

text \<open>
  The format specification \<^verbatim>\<open>.1f\<close> on a float: the exact value of the float rounded
  to one decimal, ties to even; the sign is kept when the rounded value is zero.
\<close>

definition format_f1 :: "pyfloat \<Rightarrow> string" where
  "format_f1 x =
     (case x of
        NaN \<Rightarrow> ''nan''
      | PosInf \<Rightarrow> ''inf''
      | NegInf \<Rightarrow> ''-inf''
      | NegZero \<Rightarrow> ''-0.0''
      | Finite r \<Rightarrow>
          (let n = round_half_even (\<bar>r\<bar> * 10)
           in (if r < 0 then ''-'' else '''') @ str_nat (n div 10) @ ''.'' @
              str_nat (n mod 10)))"

text \<open>The format specification \<^verbatim>\<open>.1%\<close>: the float is multiplied by 100 (in binary64),
  formatted as by \<^verbatim>\<open>.1f\<close>, and followed by a percent sign.\<close>

definition format_pct1 :: "pyfloat \<Rightarrow> string" where
  "format_pct1 x = format_f1 (float_mul x (Finite 100)) @ ''%''"

text \<open>\<^verbatim>\<open>pattern in s\<close>; also \<^verbatim>\<open>Series.str.contains(pattern)\<close> for a pattern without
  regular-expression metacharacters.\<close>

definition str_contains :: "string \<Rightarrow> string \<Rightarrow> bool" where
  "str_contains pat s = sublist pat s"

section \<open>The snapshot\<close>

text \<open>
  \<^verbatim>\<open>parse_supply_chain_data\<close> returns a dictionary of six domains. The production,
  capacity and MRP domains are data frames built from lists of dictionaries with the
  same keys; a frame is modelled as the list of its rows, in order, and a row as a record
  with one field per column, in the order of the keys. The procurement, import and
  warehouse domains are nested dictionaries with fixed keys, modelled as records.

  Quantities are Python integers. A frame column holds them as 64-bit integers; the model
  uses unbounded integers and so describes the frames whose column sums stay in that
  range. The empty list stands for a frame that has its columns, of these types, and no
  row. A reason is \<open>None\<close> for a missing cell of the text column.
\<close>

record production_record =
  Date :: string
  Planned_Qty :: int
  Actual_Qty :: int
  Variance :: int
  Reason :: "string option"

record capacity_record =
  Department :: string
  Capacity :: int
  Planned_Load :: int
  Actual_Prod :: int
  Utilization :: int
  MTD :: int

record mrp_order =
  Order :: string
  Ordered :: string
  Available :: string
  Status :: string

record po_bucket =
  Count :: int
  Amount :: pyfloat

record procurement_summary =
  PO_Issued :: po_bucket
  PO_Received :: po_bucket
  PO_Pending :: po_bucket

record pi_status =
  PI_Total :: int
  PI_Received :: int
  PI_Approved :: int
  PI_Pending :: int

record payment_status =
  Payment_Done :: int
  Payment_Pending :: int
  Payment_Total :: int

record shipment_status =
  May :: int
  June :: int
  July :: int

record import_status =
  PI :: pi_status
  Payment :: payment_status
  Shipment :: shipment_status

record fg_stock =
  Elten :: int
  Bata :: int
  S_Step :: int
  Total :: int

record grn_status =
  GRN_Total :: int
  GRN_Done :: int
  GRN_Pending :: int

record warehouse_status =
  FG_Stock :: fg_stock
  GRN :: grn_status

record snapshot =
  production :: "production_record list"
  capacity :: "capacity_record list"
  mrp :: "mrp_order list"
  procurement :: procurement_summary
  imports_status :: import_status
  warehouse :: warehouse_status

text \<open>The compiled-in snapshot. A float literal denotes the binary64 number nearest to
  its decimal value.\<close>

definition production_data :: "production_record list" where
  "production_data =
    [\<lparr>Date = ''10-Jun-2025'', Planned_Qty = 800, Actual_Qty = 936, Variance = 136,
      Reason = Some ''2 Lines loading''\<rparr>,
     \<lparr>Date = ''11-Jun-2025'', Planned_Qty = 800, Actual_Qty = 1180, Variance = 380,
      Reason = Some ''2 Lines loading/material issue''\<rparr>,
     \<lparr>Date = ''12-Jun-2025'', Planned_Qty = 800, Actual_Qty = 650, Variance = - 150,
      Reason = Some ''Loading end/feeding issue''\<rparr>,
     \<lparr>Date = ''13-Jun-2025'', Planned_Qty = 2000, Actual_Qty = 0, Variance = - 2000,
      Reason = Some ''FEEDING ISSUE FROM CUTTING''\<rparr>,
     \<lparr>Date = ''14-Jun-2025'', Planned_Qty = 2000, Actual_Qty = 0, Variance = - 2000,
      Reason = Some ''FEEDING ISSUE FROM CUTTING''\<rparr>,
     \<lparr>Date = ''16-Jun-2025'', Planned_Qty = 2000, Actual_Qty = 393, Variance = - 1607,
      Reason = Some ''FEEDING ISSUE FROM CUTTING''\<rparr>]"

definition capacity_data :: "capacity_record list" where
  "capacity_data =
    [\<lparr>Department = ''Cutting'', Capacity = 3000, Planned_Load = 1823, Actual_Prod = 1800,
      Utilization = 60, MTD = 8763\<rparr>,
     \<lparr>Department = ''Stitching'', Capacity = 2788, Planned_Load = 0, Actual_Prod = 393,
      Utilization = 14, MTD = 7974\<rparr>,
     \<lparr>Department = ''Lasting'', Capacity = 3462, Planned_Load = 0, Actual_Prod = 0,
      Utilization = 0, MTD = 12100\<rparr>]"

definition mrp_data :: "mrp_order list" where
  "mrp_data =
    [\<lparr>Order = ''673'', Ordered = ''Yes'', Available = ''Yes'', Status = ''Complete''\<rparr>,
     \<lparr>Order = ''675'', Ordered = ''Yes'', Available = ''Yes'', Status = ''Complete''\<rparr>,
     \<lparr>Order = ''677'', Ordered = ''Yes'', Available = ''Yes'', Status = ''Complete''\<rparr>,
     \<lparr>Order = ''679'', Ordered = ''No'', Available = ''No'', Status = ''Critical''\<rparr>,
     \<lparr>Order = ''680'', Ordered = ''Yes'', Available = ''No'', Status = ''Pending''\<rparr>,
     \<lparr>Order = ''681'', Ordered = ''No'', Available = ''No'', Status = ''Critical''\<rparr>]"

definition procurement_data :: procurement_summary where
  "procurement_data =
    \<lparr>PO_Issued = \<lparr>Count = 92, Amount = round_double (11477 / 100)\<rparr>,
     PO_Received = \<lparr>Count = 56, Amount = round_double (9684 / 100)\<rparr>,
     PO_Pending = \<lparr>Count = 36, Amount = round_double (1793 / 100)\<rparr>\<rparr>"

definition import_data :: import_status where
  "import_data =
    \<lparr>PI = \<lparr>PI_Total = 12, PI_Received = 12, PI_Approved = 12, PI_Pending = 0\<rparr>,
     Payment = \<lparr>Payment_Done = 3, Payment_Pending = 4, Payment_Total = 7\<rparr>,
     Shipment = \<lparr>May = 1, June = 8, July = 1\<rparr>\<rparr>"

definition warehouse_data :: warehouse_status where
  "warehouse_data =
    \<lparr>FG_Stock = \<lparr>Elten = 1090, Bata = 0, S_Step = 1500, Total = 2590\<rparr>,
     GRN = \<lparr>GRN_Total = 4, GRN_Done = 4, GRN_Pending = 0\<rparr>\<rparr>"

definition parse_supply_chain_data :: snapshot where
  "parse_supply_chain_data =
    \<lparr>production = production_data, capacity = capacity_data, mrp = mrp_data,
     procurement = procurement_data, imports_status = import_data,
     warehouse = warehouse_data\<rparr>"

section \<open>The issue classifier\<close>

text \<open>The emoji that open the messages, as UTF-8: U+1F6A8, U+1F525, U+26A0 U+FE0F,
  U+1F536, U+1F4CB and U+1F4E6.\<close>

definition emoji_siren :: string where
  "emoji_siren = [CHR 0xF0, CHR 0x9F, CHR 0x9A, CHR 0xA8]"

definition emoji_fire :: string where
  "emoji_fire = [CHR 0xF0, CHR 0x9F, CHR 0x94, CHR 0xA5]"

definition emoji_warning :: string where
  "emoji_warning = [CHR 0xE2, CHR 0x9A, CHR 0xA0, CHR 0xEF, CHR 0xB8, CHR 0x8F]"

definition emoji_orange_diamond :: string where
  "emoji_orange_diamond = [CHR 0xF0, CHR 0x9F, CHR 0x94, CHR 0xB6]"

definition emoji_clipboard :: string where
  "emoji_clipboard = [CHR 0xF0, CHR 0x9F, CHR 0x93, CHR 0x8B]"

definition emoji_package :: string where
  "emoji_package = [CHR 0xF0, CHR 0x9F, CHR 0x93, CHR 0xA6]"

text \<open>The three lists that \<^verbatim>\<open>analyze_critical_issues\<close> creates empty and appends to.\<close>

record issues =
  critical_issues :: "string list"
  high_issues :: "string list"
  medium_issues :: "string list"

text \<open>Lines 144 to 147: the production analysis.\<close>

definition shortfall_message :: "int \<Rightarrow> string" where
  "shortfall_message total_variance =
     emoji_siren @ '' CRITICAL: Production shortfall of '' @
     format_comma \<bar>total_variance\<bar> @ '' units''"

definition production_analysis :: "production_record list \<Rightarrow> issues \<Rightarrow> issues" where
  "production_analysis prod_df st =
     (let total_variance = sum_list (map Variance prod_df)
      in if total_variance < - 3000
         then st\<lparr>critical_issues := critical_issues st @ [shortfall_message total_variance]\<rparr>
         else st)"

text \<open>Lines 149 to 152: the feeding issues. A missing reason does not match
  (\<^verbatim>\<open>na=False\<close>).\<close>

definition reason_contains :: "string \<Rightarrow> production_record \<Rightarrow> bool" where
  "reason_contains pat r = (case Reason r of None \<Rightarrow> False | Some s \<Rightarrow> str_contains pat s)"

definition feeding_message :: "nat \<Rightarrow> string" where
  "feeding_message n =
     emoji_fire @ '' CRITICAL: '' @ str_int (int n) @ '' days of feeding issues from cutting''"

definition feeding_analysis :: "production_record list \<Rightarrow> issues \<Rightarrow> issues" where
  "feeding_analysis prod_df st =
     (let feeding_issues = filter (reason_contains ''FEEDING ISSUE'') prod_df
      in if 3 \<le> length feeding_issues
         then st\<lparr>critical_issues := critical_issues st @ [feeding_message (length feeding_issues)]\<rparr>
         else st)"

text \<open>Lines 154 to 160: the loop over the rows of the capacity frame.\<close>

definition capacity_critical_message :: "capacity_record \<Rightarrow> string" where
  "capacity_critical_message row =
     emoji_warning @ '' CRITICAL: '' @ Department row @ '' capacity at '' @
     str_int (Utilization row) @ ''%''"

definition capacity_high_message :: "capacity_record \<Rightarrow> string" where
  "capacity_high_message row =
     emoji_orange_diamond @ '' HIGH: '' @ Department row @ '' underutilized at '' @
     str_int (Utilization row) @ ''%''"

definition capacity_row :: "capacity_record \<Rightarrow> issues \<Rightarrow> issues" where
  "capacity_row row st =
     (if Utilization row < 20
      then st\<lparr>critical_issues := critical_issues st @ [capacity_critical_message row]\<rparr>
      else if Utilization row < 40
      then st\<lparr>high_issues := high_issues st @ [capacity_high_message row]\<rparr>
      else st)"

definition capacity_utilization :: "capacity_record list \<Rightarrow> issues \<Rightarrow> issues" where
  "capacity_utilization cap_df st = fold capacity_row cap_df st"

text \<open>Lines 162 to 166: the MRP issues.\<close>

definition mrp_message :: "nat \<Rightarrow> string" where
  "mrp_message n =
     emoji_clipboard @ '' HIGH: '' @ str_int (int n) @ '' orders with material unavailability''"

definition mrp_issues :: "mrp_order list \<Rightarrow> issues \<Rightarrow> issues" where
  "mrp_issues mrp_df st =
     (let critical_orders = filter (\<lambda>order. Status order = ''Critical'') mrp_df
      in if 0 < length critical_orders
         then st\<lparr>high_issues := high_issues st @ [mrp_message (length critical_orders)]\<rparr>
         else st)"

text \<open>Lines 168 to 172: the procurement issues. The division is a division of Python
  integers and is not guarded. The literal \<^verbatim>\<open>0.3\<close> is the binary64 number nearest
  to three tenths.\<close>

definition pending_message :: "pyfloat \<Rightarrow> string" where
  "pending_message pending_ratio =
     emoji_package @ '' MEDIUM: '' @ format_pct1 pending_ratio @ '' of POs pending''"

definition procurement_issues :: "procurement_summary \<Rightarrow> issues \<Rightarrow> py_error + issues" where
  "procurement_issues proc st =
     (case py_truediv (Count (PO_Pending proc)) (Count (PO_Issued proc)) of
        Inl err \<Rightarrow> Inl err
      | Inr pending_ratio \<Rightarrow>
          if float_gt pending_ratio (round_double (3 / 10))
          then Inr (st\<lparr>medium_issues := medium_issues st @ [pending_message pending_ratio]\<rparr>)
          else Inr st)"

text \<open>
  \<^verbatim>\<open>analyze_critical_issues\<close>: the five rules in the order of the source. The result is
  the tuple of the three lists, or the exception raised by the division.
\<close>

definition analyze_critical_issues ::
  "snapshot \<Rightarrow> py_error + (string list \<times> string list \<times> string list)" where
  "analyze_critical_issues data =
     (let st = \<lparr>critical_issues = [], high_issues = [], medium_issues = []\<rparr>;
          st = production_analysis (production data) st;
          st = feeding_analysis (production data) st;
          st = capacity_utilization (capacity data) st;
          st = mrp_issues (mrp data) st
      in case procurement_issues (procurement data) st of
           Inl err \<Rightarrow> Inl err
         | Inr st \<Rightarrow> Inr (critical_issues st, high_issues st, medium_issues st))"

section \<open>The summary report\<close>

definition emoji_bar_chart :: string where
  "emoji_bar_chart = [CHR 0xF0, CHR 0x9F, CHR 0x93, CHR 0x8A]"

definition emoji_arrows :: string where
  "emoji_arrows = [CHR 0xF0, CHR 0x9F, CHR 0x94, CHR 0x84]"

definition newline :: string where
  "newline = [CHR 0x0A]"

text \<open>Line 245: the sums of two columns are numpy integers, their quotient and its
  product with 100 are float64.\<close>

definition production_efficiency :: "snapshot \<Rightarrow> pyfloat" where
  "production_efficiency data =
     float_mul
       (np_true_divide (sum_list (map Actual_Qty (production data)))
                       (sum_list (map Planned_Qty (production data))))
       (Finite 100)"

text \<open>
  Line 247: \<^verbatim>\<open>Series.mean()\<close> of an integer column is the float64 total divided by the
  number of rows, and a NaN for a column without rows. The total is modelled as the exact
  sum rounded once; the float64 summation gives the same while the totals stay below
  \<open>2 ^ 53\<close> in magnitude.
\<close>

definition series_mean :: "int list \<Rightarrow> pyfloat" where
  "series_mean xs =
     (if xs = [] then NaN
      else float_div (round_double (of_int (sum_list xs)))
                     (round_double (of_int (int (length xs)))))"

text \<open>Line 248: a division of Python integers, not guarded, then a float product.\<close>

definition po_completion_rate :: "procurement_summary \<Rightarrow> py_error + pyfloat" where
  "po_completion_rate proc =
     (case py_truediv (Count (PO_Received proc)) (Count (PO_Issued proc)) of
        Inl err \<Rightarrow> Inl err
      | Inr r \<Rightarrow> Inr (float_mul r (Finite 100)))"

definition report_header :: "string \<Rightarrow> nat \<Rightarrow> string" where
  "report_header report_date n =
     newline @ ''# '' @ emoji_bar_chart @ '' SUPPLY CHAIN EXECUTIVE SUMMARY'' @ newline @
     ''**Report Date:** '' @ report_date @ newline @
     newline @
     ''## '' @ emoji_siren @ '' CRITICAL ALERTS ('' @ str_int (int n) @ '')'' @ newline"

definition high_header :: "nat \<Rightarrow> string" where
  "high_header n =
     newline @ ''## '' @ emoji_warning @ '' HIGH PRIORITY ('' @ str_int (int n) @ '')'' @ newline"

definition issue_line :: "string \<Rightarrow> string \<Rightarrow> string" where
  "issue_line issue report = report @ ''- '' @ issue @ newline"

definition efficiency_line :: "snapshot \<Rightarrow> string" where
  "efficiency_line data =
     ''- **Production Efficiency:** '' @ format_f1 (production_efficiency data) @ ''%'' @ newline"

definition key_metrics :: "snapshot \<Rightarrow> pyfloat \<Rightarrow> string" where
  "key_metrics data po_rate =
     newline @ ''## '' @ emoji_clipboard @ '' KEY METRICS'' @ newline @
     efficiency_line data @
     ''- **Total Production Variance:** '' @
       format_comma (sum_list (map Variance (production data))) @ '' units'' @ newline @
     ''- **Average Capacity Utilization:** '' @
       format_f1 (series_mean (map Utilization (capacity data))) @ ''%'' @ newline @
     ''- **PO Completion Rate:** '' @ format_f1 po_rate @ ''%'' @ newline @
     ''- **Total FG Inventory:** '' @ format_comma (Total (FG_Stock (warehouse data))) @
       '' pairs'' @ newline"

definition recommendations :: "(pyfloat \<Rightarrow> string) \<Rightarrow> snapshot \<Rightarrow> string" where
  "recommendations float_str data =
     newline @ ''## '' @ emoji_arrows @ '' RECOMMENDATIONS'' @ newline @
     ''1. **URGENT:** Address feeding issues from cutting department'' @ newline @
     ''2. **HIGH:** Increase stitching and lasting capacity utilization'' @ newline @
     ''3. **MEDIUM:** Expedite pending material orders (679, 681)'' @ newline @
     ''4. **MEDIUM:** Follow up on '' @ str_int (Count (PO_Pending (procurement data))) @
       '' pending POs worth pkr'' @ float_str (Amount (PO_Pending (procurement data))) @
       ''M'' @ newline"

text \<open>
  \<^verbatim>\<open>create_summary_report\<close>. Two values come from outside the function and are
  parameters: \<open>report_date\<close>, the text that \<^verbatim>\<open>datetime.now().strftime\<close> yields, and
  \<open>float_str\<close>, Python's \<^verbatim>\<open>str\<close> on a float, used for the pending amount.
  The medium issues are received and not used.
\<close>

definition create_summary_report ::
  "string \<Rightarrow> (pyfloat \<Rightarrow> string) \<Rightarrow> snapshot \<Rightarrow> string list \<Rightarrow> string list \<Rightarrow> string list
     \<Rightarrow> py_error + string" where
  "create_summary_report report_date float_str data critical high medium =
     (let report = report_header report_date (length critical);
          report = fold issue_line critical report;
          report = report @ high_header (length high);
          report = fold issue_line high report
      in case po_completion_rate (procurement data) of
           Inl err \<Rightarrow> Inl err
         | Inr po_rate \<Rightarrow>
             Inr (report @ key_metrics data po_rate @ recommendations float_str data))"

section \<open>The export\<close>

text \<open>
  \<^verbatim>\<open>export_report_to_excel\<close> opens a workbook writer and calls
  \<^verbatim>\<open>to_excel(writer, sheet_name=..., index=False)\<close> on six frames: one built from
  the summary text, the three frames of the snapshot as they are, and two built from the
  procurement and warehouse dictionaries. The model is the sequence of these calls, each
  as the sheet name with the frame handed over. The source returns the bytes that the
  writer makes of the six sheets; that encoding is the work of pandas and openpyxl, which
  are not part of the source, and it is not modelled: nothing below says what a reader of
  the file gets back.
\<close>

datatype cell_value = VStr string | VInt int | VFloat pyfloat

text \<open>A frame handed to the writer: a frame of the snapshot, or a frame built in the
  function, given by its column names and its rows of values.\<close>

datatype frame =
    Production_Frame "production_record list"
  | Capacity_Frame "capacity_record list"
  | Mrp_Frame "mrp_order list"
  | Built_Frame "string list" "cell_value list list"




section \<open>The classifier on a store\<close>

text \<open>
  Python hands the snapshot to \<^verbatim>\<open>analyze_critical_issues\<close> by reference, and the
  three result lists are objects that the function creates and appends to. To say what a
  call does to the objects of its caller, the function is modelled a second time, on a
  store: a list of objects, the address of an object being its index. Creating an object
  appends it to the store; \<^verbatim>\<open>append\<close> replaces the list object at an address.

  The dictionary \<^verbatim>\<open>data\<close> holds the addresses of its six values. A selection by a
  boolean mask creates a new frame. Values that the body does not bind to a name (a
  column, a mask, the row of \<^verbatim>\<open>iterrows\<close>) are read and get no address. A read
  that does not find an object of the expected kind yields \<open>None\<close>: the store does not
  hold a snapshot of the shape of \<^verbatim>\<open>parse_supply_chain_data\<close> there, and such a
  call is outside the model.
\<close>

datatype obj =
    Dict_Obj nat nat nat nat nat nat
  | Frame_Obj frame
  | Procurement_Obj procurement_summary
  | Imports_Obj import_status
  | Warehouse_Obj warehouse_status
  | List_Obj "string list"

type_synonym store = "obj list"

definition new_object :: "obj \<Rightarrow> store \<Rightarrow> nat \<times> store" where
  "new_object v s = (length s, s @ [v])"

definition get_object :: "nat \<Rightarrow> store \<Rightarrow> obj option" where
  "get_object a s = (if a < length s then Some (s ! a) else None)"

text \<open>\<^verbatim>\<open>data[key]\<close> on the dictionary of the snapshot.\<close>

definition dict_item :: "string \<Rightarrow> nat \<Rightarrow> store \<Rightarrow> nat option" where
  "dict_item key a s =
     (case get_object a s of
        Some (Dict_Obj p c m q i w) \<Rightarrow>
          if key = ''production'' then Some p
          else if key = ''capacity'' then Some c
          else if key = ''mrp'' then Some m
          else if key = ''procurement'' then Some q
          else if key = ''imports'' then Some i
          else if key = ''warehouse'' then Some w
          else None
      | _ \<Rightarrow> None)"

definition production_rows :: "nat \<Rightarrow> store \<Rightarrow> production_record list option" where
  "production_rows a s =
     (case get_object a s of Some (Frame_Obj (Production_Frame rs)) \<Rightarrow> Some rs | _ \<Rightarrow> None)"

definition capacity_rows :: "nat \<Rightarrow> store \<Rightarrow> capacity_record list option" where
  "capacity_rows a s =
     (case get_object a s of Some (Frame_Obj (Capacity_Frame rs)) \<Rightarrow> Some rs | _ \<Rightarrow> None)"

definition mrp_rows :: "nat \<Rightarrow> store \<Rightarrow> mrp_order list option" where
  "mrp_rows a s =
     (case get_object a s of Some (Frame_Obj (Mrp_Frame rs)) \<Rightarrow> Some rs | _ \<Rightarrow> None)"

definition procurement_value :: "nat \<Rightarrow> store \<Rightarrow> procurement_summary option" where
  "procurement_value a s =
     (case get_object a s of Some (Procurement_Obj p) \<Rightarrow> Some p | _ \<Rightarrow> None)"

definition imports_value :: "nat \<Rightarrow> store \<Rightarrow> import_status option" where
  "imports_value a s = (case get_object a s of Some (Imports_Obj p) \<Rightarrow> Some p | _ \<Rightarrow> None)"

definition warehouse_value :: "nat \<Rightarrow> store \<Rightarrow> warehouse_status option" where
  "warehouse_value a s =
     (case get_object a s of Some (Warehouse_Obj p) \<Rightarrow> Some p | _ \<Rightarrow> None)"

definition list_items :: "nat \<Rightarrow> store \<Rightarrow> string list option" where
  "list_items a s = (case get_object a s of Some (List_Obj xs) \<Rightarrow> Some xs | _ \<Rightarrow> None)"

text \<open>\<^verbatim>\<open>lst.append(x)\<close>, and the same under a condition.\<close>

definition list_append :: "nat \<Rightarrow> string \<Rightarrow> store \<Rightarrow> store option" where
  "list_append a x s =
     (case get_object a s of
        Some (List_Obj xs) \<Rightarrow> Some (s[a := List_Obj (xs @ [x])])
      | _ \<Rightarrow> None)"

definition append_if :: "bool \<Rightarrow> nat \<Rightarrow> string \<Rightarrow> store \<Rightarrow> store option" where
  "append_if b a x s = (if b then list_append a x s else Some s)"

text \<open>The snapshot that the store holds at an address.\<close>

definition snapshot_at :: "nat \<Rightarrow> store \<Rightarrow> snapshot option" where
  "snapshot_at data s =
     do { p \<leftarrow> dict_item ''production'' data s; prod_df \<leftarrow> production_rows p s;
          c \<leftarrow> dict_item ''capacity'' data s; cap_df \<leftarrow> capacity_rows c s;
          m \<leftarrow> dict_item ''mrp'' data s; mrp_df \<leftarrow> mrp_rows m s;
          q \<leftarrow> dict_item ''procurement'' data s; proc \<leftarrow> procurement_value q s;
          i \<leftarrow> dict_item ''imports'' data s; imp \<leftarrow> imports_value i s;
          w \<leftarrow> dict_item ''warehouse'' data s; wh \<leftarrow> warehouse_value w s;
          Some \<lparr>production = prod_df, capacity = cap_df, mrp = mrp_df, procurement = proc,
                imports_status = imp, warehouse = wh\<rparr> }"

text \<open>Lines 144 to 147 on the store.\<close>

definition production_analysis_store :: "nat \<Rightarrow> nat \<Rightarrow> store \<Rightarrow> store option" where
  "production_analysis_store prod_df critical s =
     do { rows \<leftarrow> production_rows prod_df s;
          let total_variance = sum_list (map Variance rows);
          append_if (total_variance < - 3000) critical (shortfall_message total_variance) s }"

text \<open>Lines 149 to 152 on the store; \<^verbatim>\<open>feeding_issues\<close> is a new frame.\<close>

definition feeding_analysis_store :: "nat \<Rightarrow> nat \<Rightarrow> store \<Rightarrow> store option" where
  "feeding_analysis_store prod_df critical s =
     do { rows \<leftarrow> production_rows prod_df s;
          let (feeding_issues, s) =
            new_object
              (Frame_Obj (Production_Frame (filter (reason_contains ''FEEDING ISSUE'') rows))) s;
          selected \<leftarrow> production_rows feeding_issues s;
          append_if (3 \<le> length selected) critical (feeding_message (length selected)) s }"

text \<open>Lines 154 to 160 on the store.\<close>

fun capacity_loop_store :: "capacity_record list \<Rightarrow> nat \<Rightarrow> nat \<Rightarrow> store \<Rightarrow> store option" where
  "capacity_loop_store [] critical high s = Some s"
| "capacity_loop_store (row # rows) critical high s =
     do { s \<leftarrow> (if Utilization row < 20
                then list_append critical (capacity_critical_message row) s
                else if Utilization row < 40
                then list_append high (capacity_high_message row) s
                else Some s);
          capacity_loop_store rows critical high s }"

definition capacity_utilization_store :: "nat \<Rightarrow> nat \<Rightarrow> nat \<Rightarrow> store \<Rightarrow> store option" where
  "capacity_utilization_store cap_df critical high s =
     do { rows \<leftarrow> capacity_rows cap_df s; capacity_loop_store rows critical high s }"

text \<open>Lines 162 to 166 on the store; \<^verbatim>\<open>critical_orders\<close> is a new frame.\<close>

definition mrp_issues_store :: "nat \<Rightarrow> nat \<Rightarrow> store \<Rightarrow> store option" where
  "mrp_issues_store mrp_df high s =
     do { rows \<leftarrow> mrp_rows mrp_df s;
          let (critical_orders, s) =
            new_object (Frame_Obj (Mrp_Frame (filter (\<lambda>order. Status order = ''Critical'') rows))) s;
          selected \<leftarrow> mrp_rows critical_orders s;
          append_if (0 < length selected) high (mrp_message (length selected)) s }"

text \<open>Lines 168 to 172 on the store: the exception, if one is raised, and the store.\<close>

definition procurement_issues_store ::
  "nat \<Rightarrow> nat \<Rightarrow> store \<Rightarrow> (py_error option \<times> store) option" where
  "procurement_issues_store proc medium s =
     do { p \<leftarrow> procurement_value proc s;
          case py_truediv (Count (PO_Pending p)) (Count (PO_Issued p)) of
            Inl err \<Rightarrow> Some (Some err, s)
          | Inr pending_ratio \<Rightarrow>
              do { s \<leftarrow> append_if (float_gt pending_ratio (round_double (3 / 10))) medium
                          (pending_message pending_ratio) s;
                   Some (None, s) } }"

text \<open>
  \<^verbatim>\<open>analyze_critical_issues\<close> on the store. It takes the address of \<^verbatim>\<open>data\<close> and
  returns the exception raised or the addresses of the three lists, with the store after
  the call.
\<close>

definition analyze_critical_issues_store ::
  "nat \<Rightarrow> store \<Rightarrow> ((py_error + nat \<times> nat \<times> nat) \<times> store) option" where
  "analyze_critical_issues_store data s =
     do { let (critical_issues, s) = new_object (List_Obj []) s;
          let (high_issues, s) = new_object (List_Obj []) s;
          let (medium_issues, s) = new_object (List_Obj []) s;
          prod_df \<leftarrow> dict_item ''production'' data s;
          s \<leftarrow> production_analysis_store prod_df critical_issues s;
          s \<leftarrow> feeding_analysis_store prod_df critical_issues s;
          cap_df \<leftarrow> dict_item ''capacity'' data s;
          s \<leftarrow> capacity_utilization_store cap_df critical_issues high_issues s;
          mrp_df \<leftarrow> dict_item ''mrp'' data s;
          s \<leftarrow> mrp_issues_store mrp_df high_issues s;
          proc \<leftarrow> dict_item ''procurement'' data s;
          (err, s) \<leftarrow> procurement_issues_store proc medium_issues s;
          Some (case err of
                  Some e \<Rightarrow> Inl e
                | None \<Rightarrow> Inr (critical_issues, high_issues, medium_issues), s) }"

text \<open>What the caller reads from the outcome: the exception, or the items of the three
  lists.\<close>

definition issue_lists ::
  "(py_error + nat \<times> nat \<times> nat) \<Rightarrow> store \<Rightarrow>
     (py_error + string list \<times> string list \<times> string list) option" where
  "issue_lists res s =
     (case res of
        Inl err \<Rightarrow> Some (Inl err)
      | Inr (c, h, m) \<Rightarrow>
          do { cs \<leftarrow> list_items c s; hs \<leftarrow> list_items h s; ms \<leftarrow> list_items m s;
               Some (Inr (cs, hs, ms)) })"

text \<open>A store that holds the compiled-in snapshot, its dictionary at address 0.\<close>

definition compiled_in_store :: store where
  "compiled_in_store =
     [Dict_Obj 1 2 3 4 5 6,
      Frame_Obj (Production_Frame production_data),
      Frame_Obj (Capacity_Frame capacity_data),
      Frame_Obj (Mrp_Frame mrp_data),
      Procurement_Obj procurement_data,
      Imports_Obj import_data,
      Warehouse_Obj warehouse_data]"

text \<open>
  The state of a run between two statements: the store extends the store \<open>s0\<close> of the
  caller, and the three lists, at distinct new addresses, hold the issues found so far.
\<close>

definition holds_lists :: "store \<Rightarrow> nat \<Rightarrow> nat \<Rightarrow> nat \<Rightarrow> issues \<Rightarrow> store \<Rightarrow> bool" where
  "holds_lists s0 c h m st s =
     (prefix s0 s \<and> length s0 \<le> c \<and> length s0 \<le> h \<and> length s0 \<le> m \<and>
      c \<noteq> h \<and> c \<noteq> m \<and> h \<noteq> m \<and>
      list_items c s = Some (critical_issues st) \<and>
      list_items h s = Some (high_issues st) \<and>
      list_items m s = Some (medium_issues st))"

section \<open>The classifier, rule by rule\<close>

text \<open>What each rule contributes to the lists, as a function of the domain it reads. These
  are not functions of the source; the lemmas of the next section show that the
  classifier's result is composed of them.\<close>

definition shortfall_part :: "production_record list \<Rightarrow> string list" where
  "shortfall_part prod_df =
     (if sum_list (map Variance prod_df) < - 3000
      then [shortfall_message (sum_list (map Variance prod_df))] else [])"

definition feeding_part :: "production_record list \<Rightarrow> string list" where
  "feeding_part prod_df =
     (if 3 \<le> length (filter (reason_contains ''FEEDING ISSUE'') prod_df)
      then [feeding_message (length (filter (reason_contains ''FEEDING ISSUE'') prod_df))]
      else [])"

definition mrp_part :: "mrp_order list \<Rightarrow> string list" where
  "mrp_part mrp_df =
     (if 0 < length (filter (\<lambda>order. Status order = ''Critical'') mrp_df)
      then [mrp_message (length (filter (\<lambda>order. Status order = ''Critical'') mrp_df))]
      else [])"

definition pending_part :: "pyfloat \<Rightarrow> string list" where
  "pending_part r = (if float_gt r (round_double (3 / 10)) then [pending_message r] else [])"

text \<open>The messages of the two production rules are recognised by the text they open
  with.\<close>

definition is_shortfall_issue :: "string \<Rightarrow> bool" where
  "is_shortfall_issue x = prefix (emoji_siren @ '' CRITICAL: Production shortfall of '') x"

definition is_feeding_issue :: "string \<Rightarrow> bool" where
  "is_feeding_issue x = prefix (emoji_fire @ '' CRITICAL: '') x"

text \<open>The compiled-in snapshot with a production frame of one row of a given variance.\<close>

definition snapshot_with_variance :: "int \<Rightarrow> snapshot" where
  "snapshot_with_variance v =
     parse_supply_chain_data
       \<lparr>production := [\<lparr>Date = ''17-Jun-2025'', Planned_Qty = 4000, Actual_Qty = 4000 + v,
                        Variance = v, Reason = None\<rparr>]\<rparr>"

text \<open>Two snapshots that are identical except for the \<^verbatim>\<open>Ordered\<close> and
  \<^verbatim>\<open>Available\<close> flags of their MRP orders.\<close>

definition same_up_to_mrp_flags :: "snapshot \<Rightarrow> snapshot \<Rightarrow> bool" where
  "same_up_to_mrp_flags d1 d2 =
     (production d1 = production d2 \<and> capacity d1 = capacity d2 \<and>
      procurement d1 = procurement d2 \<and> imports_status d1 = imports_status d2 \<and>
      warehouse d1 = warehouse d2 \<and>
      list_all2 (\<lambda>a b. Order a = Order b \<and> Status a = Status b) (mrp d1) (mrp d2))"

text \<open>The compiled-in snapshot with the two flags of every MRP order overwritten.\<close>

definition snapshot_with_flags :: "string \<Rightarrow> string \<Rightarrow> snapshot" where
  "snapshot_with_flags y a =
     parse_supply_chain_data
       \<lparr>mrp := map (\<lambda>order. order\<lparr>Ordered := y, Available := a\<rparr>) mrp_data\<rparr>"

text \<open>The messages of the capacity rule are recognised by the text they open with.\<close>

definition is_capacity_critical :: "string \<Rightarrow> bool" where
  "is_capacity_critical x = prefix (emoji_warning @ '' CRITICAL: '') x"

definition is_capacity_high :: "string \<Rightarrow> bool" where
  "is_capacity_high x = prefix (emoji_orange_diamond @ '' HIGH: '') x"

text \<open>The compiled-in snapshot with another capacity frame, and one with four departments
  at the utilizations 19, 20, 39 and 40.\<close>

definition snapshot_with_capacity :: "capacity_record list \<Rightarrow> snapshot" where
  "snapshot_with_capacity cap = parse_supply_chain_data\<lparr>capacity := cap\<rparr>"

definition boundary_capacity :: "capacity_record list" where
  "boundary_capacity =
     [\<lparr>Department = ''A'', Capacity = 100, Planned_Load = 0, Actual_Prod = 19,
       Utilization = 19, MTD = 0\<rparr>,
      \<lparr>Department = ''B'', Capacity = 100, Planned_Load = 0, Actual_Prod = 20,
       Utilization = 20, MTD = 0\<rparr>,
      \<lparr>Department = ''C'', Capacity = 100, Planned_Load = 0, Actual_Prod = 39,
       Utilization = 39, MTD = 0\<rparr>,
      \<lparr>Department = ''D'', Capacity = 100, Planned_Load = 0, Actual_Prod = 40,
       Utilization = 40, MTD = 0\<rparr>]"

text \<open>The compiled-in snapshot with other pending and issued counts.\<close>

definition snapshot_with_counts :: "int \<Rightarrow> int \<Rightarrow> snapshot" where
  "snapshot_with_counts pending issued =
     parse_supply_chain_data
       \<lparr>procurement :=
          procurement_data
            \<lparr>PO_Issued := \<lparr>Count = issued, Amount = round_double (11477 / 100)\<rparr>,
             PO_Pending := \<lparr>Count = pending, Amount = round_double (1793 / 100)\<rparr>\<rparr>\<rparr>"



text \<open>The compiled-in snapshot with one production row that plans nothing and with a
  capacity frame without rows.\<close>

definition snapshot_without_plan :: snapshot where
  "snapshot_without_plan =
     parse_supply_chain_data
       \<lparr>production := [\<lparr>Date = ''17-Jun-2025'', Planned_Qty = 0, Actual_Qty = 5,
                        Variance = 5, Reason = None\<rparr>],
        capacity := []\<rparr>"

section \<open>Properties\<close>

subsection \<open>The result of the classifier\<close>

lemma production_analysis_eq:
  "production_analysis p st = st\<lparr>critical_issues := critical_issues st @ shortfall_part p\<rparr>"
  by (simp add: production_analysis_def shortfall_part_def Let_def)

lemma feeding_analysis_eq:
  "feeding_analysis p st = st\<lparr>critical_issues := critical_issues st @ feeding_part p\<rparr>"
  by (simp add: feeding_analysis_def feeding_part_def Let_def)

lemma capacity_utilization_eq:
  "capacity_utilization cap st =
     st\<lparr>critical_issues := critical_issues st @
            map capacity_critical_message (filter (\<lambda>r. Utilization r < 20) cap),
        high_issues := high_issues st @
            map capacity_high_message
              (filter (\<lambda>r. 20 \<le> Utilization r \<and> Utilization r < 40) cap)\<rparr>"
  unfolding capacity_utilization_def
proof (induction cap arbitrary: st)
  case Nil
  show ?case by simp
next
  case (Cons r cap)
  show ?case
    by (simp add: Cons.IH) (simp add: capacity_row_def)
qed

lemma mrp_issues_eq:
  "mrp_issues m st = st\<lparr>high_issues := high_issues st @ mrp_part m\<rparr>"
  by (simp add: mrp_issues_def mrp_part_def Let_def)

lemma procurement_issues_eq:
  "procurement_issues proc st =
     (case py_truediv (Count (PO_Pending proc)) (Count (PO_Issued proc)) of
        Inl err \<Rightarrow> Inl err
      | Inr r \<Rightarrow> Inr (st\<lparr>medium_issues := medium_issues st @ pending_part r\<rparr>))"
  by (simp add: procurement_issues_def pending_part_def split: sum.splits)

lemma analyze_critical_issues_eq:
  "analyze_critical_issues d =
     (case py_truediv (Count (PO_Pending (procurement d))) (Count (PO_Issued (procurement d))) of
        Inl err \<Rightarrow> Inl err
      | Inr r \<Rightarrow>
          Inr (shortfall_part (production d) @ feeding_part (production d) @
                 map capacity_critical_message (filter (\<lambda>r. Utilization r < 20) (capacity d)),
               map capacity_high_message
                 (filter (\<lambda>r. 20 \<le> Utilization r \<and> Utilization r < 40) (capacity d)) @
                 mrp_part (mrp d),
               pending_part r))"
  by (simp add: analyze_critical_issues_def production_analysis_eq feeding_analysis_eq
      capacity_utilization_eq mrp_issues_eq procurement_issues_eq split: sum.splits)

lemma shortfall_message_is_shortfall: "is_shortfall_issue (shortfall_message t)"
  by (simp add: is_shortfall_issue_def shortfall_message_def)

lemma feeding_message_not_shortfall: "\<not> is_shortfall_issue (feeding_message n)"
  by (simp add: is_shortfall_issue_def feeding_message_def emoji_siren_def emoji_fire_def)

lemma capacity_message_not_shortfall: "\<not> is_shortfall_issue (capacity_critical_message r)"
  by (simp add: is_shortfall_issue_def capacity_critical_message_def emoji_siren_def
      emoji_warning_def)

lemma filter_shortfall_feeding_part: "filter is_shortfall_issue (feeding_part p) = []"
  by (simp add: feeding_part_def feeding_message_not_shortfall)

lemma filter_shortfall_capacity:
  "filter is_shortfall_issue (map capacity_critical_message rs) = []"
  by (simp add: filter_empty_conv capacity_message_not_shortfall)

lemma filter_shortfall_part: "filter is_shortfall_issue (shortfall_part p) = shortfall_part p"
  by (simp add: shortfall_part_def shortfall_message_is_shortfall)

lemma analyze_critical_issues_InrD:
  assumes "analyze_critical_issues d = Inr (c, h, m)"
  shows "c = shortfall_part (production d) @ feeding_part (production d) @
             map capacity_critical_message (filter (\<lambda>r. Utilization r < 20) (capacity d))"
    and "h = map capacity_high_message
               (filter (\<lambda>r. 20 \<le> Utilization r \<and> Utilization r < 40) (capacity d)) @
             mrp_part (mrp d)"
    and "\<exists>r. py_truediv (Count (PO_Pending (procurement d))) (Count (PO_Issued (procurement d))) = Inr r
           \<and> m = pending_part r"
  using assms by (auto simp add: analyze_critical_issues_eq split: sum.splits)

lemma shortfall_message_3001:
  "shortfall_message (- 3001) = emoji_siren @ '' CRITICAL: Production shortfall of 3,001 units''"
  by code_simp

lemma contains_3001:
  "str_contains ''3,001'' (emoji_siren @ '' CRITICAL: Production shortfall of 3,001 units'')"
  by code_simp

lemma analyze_variance_3000:
  "analyze_critical_issues (snapshot_with_variance (- 3000)) =
     Inr ([emoji_warning @ '' CRITICAL: Stitching capacity at 14%'',
           emoji_warning @ '' CRITICAL: Lasting capacity at 0%''],
          [emoji_clipboard @ '' HIGH: 2 orders with material unavailability''],
          [emoji_package @ '' MEDIUM: 39.1% of POs pending''])"
  by code_simp

lemma analyze_variance_3001:
  "analyze_critical_issues (snapshot_with_variance (- 3001)) =
     Inr ([emoji_siren @ '' CRITICAL: Production shortfall of 3,001 units'',
           emoji_warning @ '' CRITICAL: Stitching capacity at 14%'',
           emoji_warning @ '' CRITICAL: Lasting capacity at 0%''],
          [emoji_clipboard @ '' HIGH: 2 orders with material unavailability''],
          [emoji_package @ '' MEDIUM: 39.1% of POs pending''])"
  by code_simp

lemma sum_variance_snapshot_with_variance:
  "sum_list (map Variance (production (snapshot_with_variance v))) = v"
  by (simp add: snapshot_with_variance_def)

lemma reason_contains_iff:
  "reason_contains pat r \<longleftrightarrow> (\<exists>s p q. Reason r = Some s \<and> s = p @ pat @ q)"
  by (auto simp add: reason_contains_def str_contains_def sublist_def split: option.splits)

lemma feeding_message_is_feeding: "is_feeding_issue (feeding_message n)"
  by (simp add: is_feeding_issue_def feeding_message_def)

lemma shortfall_message_not_feeding: "\<not> is_feeding_issue (shortfall_message t)"
  by (simp add: is_feeding_issue_def shortfall_message_def emoji_siren_def emoji_fire_def)

lemma capacity_message_not_feeding: "\<not> is_feeding_issue (capacity_critical_message r)"
  by (simp add: is_feeding_issue_def capacity_critical_message_def emoji_fire_def
      emoji_warning_def)

lemma filter_feeding_shortfall_part: "filter is_feeding_issue (shortfall_part p) = []"
  by (simp add: shortfall_part_def shortfall_message_not_feeding)

lemma filter_feeding_capacity:
  "filter is_feeding_issue (map capacity_critical_message rs) = []"
  by (simp add: filter_empty_conv capacity_message_not_feeding)

lemma filter_feeding_part: "filter is_feeding_issue (feeding_part p) = feeding_part p"
  by (simp add: feeding_part_def feeding_message_is_feeding)

lemma feeding_count_compiled_in:
  "length (filter (reason_contains ''FEEDING ISSUE'') production_data) = 3"
  by code_simp

lemma feeding_part_compiled_in:
  "feeding_part (production parse_supply_chain_data) =
     [emoji_fire @ '' CRITICAL: 3 days of feeding issues from cutting'']"
  by code_simp

lemma analyze_compiled_in:
  "analyze_critical_issues parse_supply_chain_data =
     Inr ([emoji_siren @ '' CRITICAL: Production shortfall of 5,241 units'',
           emoji_fire @ '' CRITICAL: 3 days of feeding issues from cutting'',
           emoji_warning @ '' CRITICAL: Stitching capacity at 14%'',
           emoji_warning @ '' CRITICAL: Lasting capacity at 0%''],
          [emoji_clipboard @ '' HIGH: 2 orders with material unavailability''],
          [emoji_package @ '' MEDIUM: 39.1% of POs pending''])"
  by code_simp

lemma count_status_cong:
  "list_all2 (\<lambda>a b. Order a = Order b \<and> Status a = Status b) xs ys \<Longrightarrow>
   length (filter (\<lambda>order. Status order = s) xs) = length (filter (\<lambda>order. Status order = s) ys)"
  by (induction xs ys rule: list_all2_induct) auto

lemma mrp_part_cong:
  "list_all2 (\<lambda>a b. Order a = Order b \<and> Status a = Status b) xs ys \<Longrightarrow>
   mrp_part xs = mrp_part ys"
  by (simp add: mrp_part_def count_status_cong)

lemma same_flags_compiled_in:
  "same_up_to_mrp_flags parse_supply_chain_data (snapshot_with_flags ''No'' ''Yes'')"
  by (simp add: same_up_to_mrp_flags_def snapshot_with_flags_def parse_supply_chain_data_def
      mrp_data_def)

lemma flags_differ_compiled_in:
  "mrp parse_supply_chain_data \<noteq> mrp (snapshot_with_flags ''No'' ''Yes'')"
  by (simp add: snapshot_with_flags_def parse_supply_chain_data_def mrp_data_def)

lemma capacity_critical_message_is_critical:
  "is_capacity_critical (capacity_critical_message r)"
  by (simp add: is_capacity_critical_def capacity_critical_message_def)

lemma shortfall_message_not_capacity: "\<not> is_capacity_critical (shortfall_message t)"
  by (simp add: is_capacity_critical_def shortfall_message_def emoji_siren_def emoji_warning_def)

lemma feeding_message_not_capacity: "\<not> is_capacity_critical (feeding_message n)"
  by (simp add: is_capacity_critical_def feeding_message_def emoji_fire_def emoji_warning_def)

lemma capacity_high_message_is_high: "is_capacity_high (capacity_high_message r)"
  by (simp add: is_capacity_high_def capacity_high_message_def)

lemma mrp_message_not_capacity: "\<not> is_capacity_high (mrp_message n)"
  by (simp add: is_capacity_high_def mrp_message_def emoji_clipboard_def
      emoji_orange_diamond_def)

lemma filter_capacity_critical:
  "filter is_capacity_critical
     (shortfall_part p @ feeding_part p @ map capacity_critical_message rs) =
   map capacity_critical_message rs"
  by (simp add: shortfall_part_def feeding_part_def shortfall_message_not_capacity
      feeding_message_not_capacity filter_id_conv capacity_critical_message_is_critical)

lemma filter_capacity_high:
  "filter is_capacity_high (map capacity_high_message rs @ mrp_part ms) =
   map capacity_high_message rs"
  by (simp add: mrp_part_def mrp_message_not_capacity filter_id_conv
      capacity_high_message_is_high)

lemma length_filter_split:
  "length (filter (\<lambda>r. Utilization r < 20) rs) +
   length (filter (\<lambda>r. 20 \<le> Utilization r \<and> Utilization r < 40) rs) =
   length (filter (\<lambda>r. Utilization r < (40::int)) rs)"
  by (induction rs) auto

lemma analyze_boundary_capacity:
  "analyze_critical_issues (snapshot_with_capacity boundary_capacity) =
     Inr ([emoji_siren @ '' CRITICAL: Production shortfall of 5,241 units'',
           emoji_fire @ '' CRITICAL: 3 days of feeding issues from cutting'',
           emoji_warning @ '' CRITICAL: A capacity at 19%''],
          [emoji_orange_diamond @ '' HIGH: B underutilized at 20%'',
           emoji_orange_diamond @ '' HIGH: C underutilized at 39%'',
           emoji_clipboard @ '' HIGH: 2 orders with material unavailability''],
          [emoji_package @ '' MEDIUM: 39.1% of POs pending''])"
  by code_simp

lemma boundary_capacity_messages:
  "map (\<lambda>r. emoji_warning @ '' CRITICAL: '' @ Department r @ '' capacity at '' @
             str_int (Utilization r) @ ''%'')
     (filter (\<lambda>r. Utilization r < 20) (capacity (snapshot_with_capacity boundary_capacity))) =
     [emoji_warning @ '' CRITICAL: A capacity at 19%'']"
  "map (\<lambda>r. emoji_orange_diamond @ '' HIGH: '' @ Department r @ '' underutilized at '' @
             str_int (Utilization r) @ ''%'')
     (filter (\<lambda>r. 20 \<le> Utilization r \<and> Utilization r < 40)
        (capacity (snapshot_with_capacity boundary_capacity))) =
     [emoji_orange_diamond @ '' HIGH: B underutilized at 20%'',
      emoji_orange_diamond @ '' HIGH: C underutilized at 39%'']"
  by code_simp+

lemma round_double_3_10:
  "round_double (3 / 10) = Finite (5404319552844595 / 18014398509481984)"
  by code_simp

lemma pending_part_3_10: "pending_part (round_double (3 / 10)) = []"
  by (simp add: pending_part_def float_gt_def)

lemma pending_part_31_100:
  "pending_part (round_double (31 / 100)) = [emoji_package @ '' MEDIUM: 31.0% of POs pending'']"
  by code_simp

lemma not_inf_31_100: "\<not> is_inf (round_double (31 / 100))"
  by code_simp

lemma not_inf_3_10: "\<not> is_inf (round_double (3 / 10))"
  by code_simp

lemma contains_31_0:
  "str_contains ''31.0%'' (emoji_package @ '' MEDIUM: 31.0% of POs pending'')"
  by code_simp

lemma py_truediv_ratio:
  assumes "of_int a / of_int b = (q :: rat)" and "q \<noteq> 0" and "\<not> is_inf (round_double q)"
  shows "py_truediv a b = Inr (round_double q)"
proof -
  from assms(1,2) have "b \<noteq> 0" and "a \<noteq> 0"
    by auto
  then show ?thesis
    using assms(1,3) by (simp add: py_truediv_def)
qed

lemma ratio_snapshot_with_counts:
  "Count (PO_Pending (procurement (snapshot_with_counts p i))) = p"
  "Count (PO_Issued (procurement (snapshot_with_counts p i))) = i"
  by (simp_all add: snapshot_with_counts_def)

lemma str_contains_mid: "str_contains p y \<Longrightarrow> str_contains p (x @ y @ z)"
proof -
  assume "str_contains p y"
  then obtain a b where "y = a @ p @ b"
    by (auto simp add: str_contains_def sublist_def)
  then have "x @ y @ z = (x @ a) @ p @ (b @ z)"
    by simp
  then show ?thesis
    unfolding str_contains_def sublist_def by blast
qed

lemma str_contains_prefix: "str_contains p (p @ z)"
  by (simp add: str_contains_def)

lemma efficiency_example:
  "format_f1 (float_mul (np_true_divide 3159 8400) (Finite 100)) = ''37.6''"
  by code_simp

lemma create_summary_report_InrD:
  assumes "create_summary_report report_date float_str d critical high medium = Inr report"
  shows "\<exists>x po_rate. report = x @ key_metrics d po_rate @ recommendations float_str d"
proof (cases "po_completion_rate (procurement d)")
  case (Inl err)
  with assms show ?thesis
    by (simp add: create_summary_report_def Let_def)
next
  case (Inr po_rate)
  with assms have "report =
      fold issue_line high
        (fold issue_line critical (report_header report_date (length critical)) @
         high_header (length high)) @
      key_metrics d po_rate @ recommendations float_str d"
    by (simp add: create_summary_report_def Let_def)
  then show ?thesis
    by blast
qed

lemma key_metrics_efficiency_line:
  "\<exists>x z. key_metrics d po_rate = x @ efficiency_line d @ z"
proof -
  have "key_metrics d po_rate =
      (newline @ ''## '' @ emoji_clipboard @ '' KEY METRICS'' @ newline) @
      efficiency_line d @
      (''- **Total Production Variance:** '' @
       format_comma (sum_list (map Variance (production d))) @ '' units'' @ newline @
       ''- **Average Capacity Utilization:** '' @
       format_f1 (series_mean (map Utilization (capacity d))) @ ''%'' @ newline @
       ''- **PO Completion Rate:** '' @ format_f1 po_rate @ ''%'' @ newline @
       ''- **Total FG Inventory:** '' @ format_comma (Total (FG_Stock (warehouse d))) @
       '' pairs'' @ newline)"
    unfolding key_metrics_def by (simp only: append_assoc)
  then show ?thesis
    by blast
qed

lemma report_compiled_in:
  "isl (create_summary_report ''03-Nov-2026 10:00'' (\<lambda>x. ''17.93'') parse_supply_chain_data
          [] [] []) = False"
  by code_simp

lemma quantities_compiled_in:
  "map Planned_Qty (production parse_supply_chain_data) = [800, 800, 800, 2000, 2000, 2000]"
  "map Actual_Qty (production parse_supply_chain_data) = [936, 1180, 650, 0, 0, 393]"
  by (simp_all add: parse_supply_chain_data_def production_data_def)

lemma pow2_power_int: "pow2 k = 2 powi k"
  by (simp add: pow2_def power_int_def power_one_over)

lemma pow2_pos: "0 < pow2 k"
  by (simp add: pow2_power_int)

lemma pow2_mono: "a \<le> b \<Longrightarrow> pow2 a \<le> pow2 b"
  by (simp add: pow2_power_int power_int_increasing)

lemma bit_length_pos: "0 < n \<Longrightarrow> 1 \<le> bit_length n"
proof (induction n rule: bit_length.induct)
  case (1 n)
  then have "bit_length n = 1 + bit_length (n div 2)"
    by (simp add: bit_length.simps [of n])
  moreover have "0 \<le> bit_length (n div 2)"
  proof (cases "0 < n div 2")
    case True
    with 1 show ?thesis by simp
  next
    case False
    then show ?thesis by (simp add: bit_length.simps [of "n div 2"])
  qed
  ultimately show ?case by simp
qed

lemma bit_length_lower: "0 < n \<Longrightarrow> 2 ^ nat (bit_length n - 1) \<le> n"
proof (induction n rule: bit_length.induct)
  case (1 n)
  have b: "bit_length n = 1 + bit_length (n div 2)"
    using 1(2) by (simp add: bit_length.simps [of n])
  show ?case
  proof (cases "0 < n div 2")
    case True
    with 1 have ih: "2 ^ nat (bit_length (n div 2) - 1) \<le> n div 2"
      by simp
    have p: "1 \<le> bit_length (n div 2)"
      using True by (rule bit_length_pos)
    then have "nat (bit_length (n div 2)) = Suc (nat (bit_length (n div 2) - 1))"
      by simp
    then have "(2::int) ^ nat (bit_length (n div 2)) = 2 * 2 ^ nat (bit_length (n div 2) - 1)"
      by simp
    also have "\<dots> \<le> 2 * (n div 2)"
      using ih by simp
    also have "\<dots> \<le> n"
      by simp
    finally show ?thesis
      by (simp add: b)
  next
    case False
    then have "bit_length (n div 2) = 0"
      by (simp add: bit_length.simps [of "n div 2"])
    with 1(2) show ?thesis
      by (simp add: b)
  qed
qed

lemma bit_length_upper: "0 < n \<Longrightarrow> n < 2 ^ nat (bit_length n)"
proof (induction n rule: bit_length.induct)
  case (1 n)
  have b: "bit_length n = 1 + bit_length (n div 2)"
    using 1(2) by (simp add: bit_length.simps [of n])
  show ?case
  proof (cases "0 < n div 2")
    case True
    with 1 have ih: "n div 2 < 2 ^ nat (bit_length (n div 2))"
      by simp
    have p: "1 \<le> bit_length (n div 2)"
      using True by (rule bit_length_pos)
    then have "nat (1 + bit_length (n div 2)) = Suc (nat (bit_length (n div 2)))"
      by simp
    then have "(2::int) ^ nat (bit_length n) = 2 * 2 ^ nat (bit_length (n div 2))"
      by (simp add: b)
    moreover have "n < 2 * (n div 2 + 1)"
      by presburger
    moreover have "2 * (n div 2 + 1) \<le> 2 * 2 ^ nat (bit_length (n div 2))"
      using ih by simp
    ultimately show ?thesis
      by simp
  next
    case False
    with 1(2) have "n = 1"
      by presburger
    then show ?thesis
      by (simp add: bit_length.simps [of 1] bit_length.simps [of 0])
  qed
qed

text \<open>The exponent found by \<open>floor_log2\<close> is the one of the binade of \<open>x\<close>.\<close>

lemma floor_log2_bounds:
  assumes "0 < x"
  shows "pow2 (floor_log2 x) \<le> x" and "x < pow2 (floor_log2 x + 1)"
proof -
  obtain p q where pq: "quotient_of x = (p, q)"
    by (cases "quotient_of x")
  then have q: "0 < q" and x: "x = of_int p / of_int q"
    by (auto dest: quotient_of_denom_pos quotient_of_div)
  with assms have p: "0 < p"
    by (simp add: zero_less_divide_iff)
  define k where "k = bit_length p - bit_length q"
  have f: "floor_log2 x = (if pow2 k \<le> x then k else k - 1)"
    by (simp add: floor_log2_def pq k_def)
  have pl: "pow2 (bit_length p - 1) \<le> of_int p"
  proof -
    have "(of_int (2 ^ nat (bit_length p - 1)) :: rat) \<le> of_int p"
      using bit_length_lower [OF p] by (simp only: of_int_le_iff)
    moreover have "0 \<le> bit_length p - 1"
      using bit_length_pos [OF p] by simp
    ultimately show ?thesis
      by (simp add: pow2_def)
  qed
  have pu: "of_int p < pow2 (bit_length p)"
  proof -
    have "(of_int p :: rat) < of_int (2 ^ nat (bit_length p))"
      using bit_length_upper [OF p] by (simp only: of_int_less_iff)
    moreover have "0 \<le> bit_length p"
      using bit_length_pos [OF p] by simp
    ultimately show ?thesis
      by (simp add: pow2_def)
  qed
  have ql: "pow2 (bit_length q - 1) \<le> of_int q"
  proof -
    have "(of_int (2 ^ nat (bit_length q - 1)) :: rat) \<le> of_int q"
      using bit_length_lower [OF q] by (simp only: of_int_le_iff)
    moreover have "0 \<le> bit_length q - 1"
      using bit_length_pos [OF q] by simp
    ultimately show ?thesis
      by (simp add: pow2_def)
  qed
  have qu: "of_int q < pow2 (bit_length q)"
  proof -
    have "(of_int q :: rat) < of_int (2 ^ nat (bit_length q))"
      using bit_length_upper [OF q] by (simp only: of_int_less_iff)
    moreover have "0 \<le> bit_length q"
      using bit_length_pos [OF q] by simp
    ultimately show ?thesis
      by (simp add: pow2_def)
  qed
  have pd: "pow2 (a - b) = pow2 a / pow2 b" for a b
    unfolding pow2_power_int by (rule power_int_diff) simp
  have lower: "pow2 (k - 1) \<le> x"
  proof -
    have "k - 1 = (bit_length p - 1) - bit_length q"
      by (simp add: k_def)
    then have "pow2 (k - 1) = pow2 (bit_length p - 1) / pow2 (bit_length q)"
      by (simp only: pd)
    also have "\<dots> \<le> of_int p / of_int q"
      using pl qu q pow2_pos [of "bit_length p - 1"]
      by (intro frac_le) simp_all
    finally show ?thesis
      by (simp add: x)
  qed
  have upper: "x < pow2 (k + 1)"
  proof -
    have "of_int p / of_int q < pow2 (bit_length p) / pow2 (bit_length q - 1)"
      using pu ql p pow2_pos [of "bit_length q - 1"]
      by (intro frac_less) simp_all
    also have "\<dots> = pow2 (bit_length p - (bit_length q - 1))"
      by (simp only: pd)
    also have "bit_length p - (bit_length q - 1) = k + 1"
      by (simp add: k_def)
    finally show ?thesis
      by (simp add: x)
  qed
  show "pow2 (floor_log2 x) \<le> x"
    using lower by (simp add: f)
  show "x < pow2 (floor_log2 x + 1)"
    using upper by (auto simp add: f not_le)
qed

lemma round_half_even_ge_floor: "\<lfloor>y\<rfloor> \<le> round_half_even y"
  by (simp add: round_half_even_def Let_def)

text \<open>A number of magnitude at least one is not rounded to a zero.\<close>

lemma round_double_ge_1:
  assumes "1 \<le> \<bar>x\<bar>"
  shows "\<not> is_zero (round_double x)" and "\<not> is_nan (round_double x)"
    and "sign_bit (round_double x) = (x < 0)"
proof -
  define e where "e = max (floor_log2 \<bar>x\<bar> - 52) (- 1074)"
  define m where "m = round_half_even (\<bar>x\<bar> / pow2 e)"
  from assms have x0: "x \<noteq> 0" and a0: "0 < \<bar>x\<bar>"
    by auto
  have "pow2 e \<le> \<bar>x\<bar>"
  proof (cases "- 1074 \<le> floor_log2 \<bar>x\<bar> - 52")
    case True
    then have "e = floor_log2 \<bar>x\<bar> - 52"
      by (simp add: e_def)
    then have "pow2 e \<le> pow2 (floor_log2 \<bar>x\<bar>)"
      by (simp add: pow2_mono)
    also have "\<dots> \<le> \<bar>x\<bar>"
      using a0 by (rule floor_log2_bounds)
    finally show ?thesis .
  next
    case False
    then have "e = - 1074"
      by (simp add: e_def)
    then have "pow2 e \<le> pow2 0"
      by (simp add: pow2_mono)
    also have "\<dots> = 1"
      by (simp add: pow2_def)
    finally show ?thesis
      using assms by simp
  qed
  then have "1 \<le> \<bar>x\<bar> / pow2 e"
    using pow2_pos [of e] by (simp add: le_divide_eq)
  then have "1 \<le> \<lfloor>\<bar>x\<bar> / pow2 e\<rfloor>"
    by (simp add: le_floor_iff)
  then have m1: "1 \<le> m"
    unfolding m_def using round_half_even_ge_floor [of "\<bar>x\<bar> / pow2 e"] by (rule order_trans)
  define w where "w = of_int m * pow2 e"
  have v: "0 < w"
    unfolding w_def using m1 pow2_pos [of e] by simp
  have rd: "round_double x =
      (if 971 < e \<or> (e = 971 \<and> 2 ^ 53 \<le> m) then (if x < 0 then NegInf else PosInf)
       else Finite (if x < 0 then - w else w))"
  proof -
    have "round_double x =
      (if x = 0 then Finite 0
       else if 971 < e \<or> (e = 971 \<and> 2 ^ 53 \<le> m) then (if x < 0 then NegInf else PosInf)
       else if m = 0 then (if x < 0 then NegZero else Finite 0)
       else Finite (if x < 0 then - w else w))"
      unfolding round_double_def Let_def w_def m_def e_def by (rule refl)
    moreover have "m \<noteq> 0"
      using m1 by simp
    ultimately show ?thesis
      using x0 by (simp only: if_False)
  qed
  show "\<not> is_zero (round_double x)"
    using v by (simp add: rd is_zero_def)
  show "\<not> is_nan (round_double x)"
    by (simp add: rd is_nan_def)
  show "sign_bit (round_double x) = (x < 0)"
    using v by (simp add: rd sign_bit_def)
qed

lemma is_inf_not_zero_nan: "is_inf x \<Longrightarrow> \<not> is_zero x \<and> \<not> is_nan x"
  by (cases x) (simp_all add: is_inf_def is_zero_def is_nan_def)

lemma np_true_divide_by_zero:
  "np_true_divide a 0 = (if a = 0 then NaN else if a < 0 then NegInf else PosInf)"
proof (cases "a = 0")
  case True
  then show ?thesis
    by (simp add: np_true_divide_def round_double_def float_div_def is_nan_def is_inf_def
        is_zero_def)
next
  case False
  then have "1 \<le> \<bar>(of_int a :: rat)\<bar>"
    by (simp flip: of_int_abs add: of_int_1_le_iff [where ?'a = rat])
  note r = round_double_ge_1 [OF this]
  have z: "round_double 0 = Finite 0"
    by (simp add: round_double_def)
  show ?thesis
    using False r
    by (simp add: np_true_divide_def z float_div_def)
      (simp add: is_nan_def is_inf_def is_zero_def sign_bit_def)
qed

lemma efficiency_without_plan:
  assumes "sum_list (map Planned_Qty (production d)) = 0"
  shows "format_f1 (production_efficiency d) =
           (if sum_list (map Actual_Qty (production d)) = 0 then ''nan''
            else if sum_list (map Actual_Qty (production d)) < 0 then ''-inf'' else ''inf'')"
  by (simp add: production_efficiency_def assms np_true_divide_by_zero float_mul_def is_nan_def
      is_inf_def is_zero_def sign_bit_def format_f1_def)

lemma py_truediv_ZeroDivisionError_iff: "py_truediv a b = Inl ZeroDivisionError \<longleftrightarrow> b = 0"
  by (simp add: py_truediv_def Let_def)

lemma analyze_ZeroDivisionError_iff:
  "analyze_critical_issues d = Inl ZeroDivisionError \<longleftrightarrow>
     Count (PO_Issued (procurement d)) = 0"
proof (cases "py_truediv (Count (PO_Pending (procurement d))) (Count (PO_Issued (procurement d)))")
  case (Inl err)
  then show ?thesis
    using py_truediv_ZeroDivisionError_iff
      [of "Count (PO_Pending (procurement d))" "Count (PO_Issued (procurement d))"]
    by (simp add: analyze_critical_issues_eq)
next
  case (Inr r)
  then show ?thesis
    using py_truediv_ZeroDivisionError_iff
      [of "Count (PO_Pending (procurement d))" "Count (PO_Issued (procurement d))"]
    by (simp add: analyze_critical_issues_eq)
qed

lemma report_ZeroDivisionError_iff:
  "create_summary_report report_date float_str d critical high medium = Inl ZeroDivisionError \<longleftrightarrow>
     Count (PO_Issued (procurement d)) = 0"
proof (cases "py_truediv (Count (PO_Received (procurement d))) (Count (PO_Issued (procurement d)))")
  case (Inl err)
  then show ?thesis
    using py_truediv_ZeroDivisionError_iff
      [of "Count (PO_Received (procurement d))" "Count (PO_Issued (procurement d))"]
    by (simp add: create_summary_report_def po_completion_rate_def Let_def)
next
  case (Inr r)
  then show ?thesis
    using py_truediv_ZeroDivisionError_iff
      [of "Count (PO_Received (procurement d))" "Count (PO_Issued (procurement d))"]
    by (simp add: create_summary_report_def po_completion_rate_def Let_def)
qed

lemma snapshot_without_plan_simps:
  "sum_list (map Planned_Qty (production snapshot_without_plan)) = 0"
  "capacity snapshot_without_plan = []"
  "Count (PO_Issued (procurement snapshot_without_plan)) = 92"
  by (simp_all add: snapshot_without_plan_def parse_supply_chain_data_def procurement_data_def)

lemma pow2_add: "pow2 (a + b) = pow2 a * pow2 b"
  unfolding pow2_power_int by (rule power_int_add) simp

lemma pow2_of_nat: "pow2 (int n) = 2 ^ n"
  by (simp add: pow2_def)

lemma round_half_even_le_floor_Suc: "round_half_even y \<le> \<lfloor>y\<rfloor> + 1"
  by (simp add: round_half_even_def Let_def)

lemma round_half_even_lower: "of_int n \<le> y \<Longrightarrow> n \<le> round_half_even y"
proof -
  assume "of_int n \<le> y"
  then have "n \<le> \<lfloor>y\<rfloor>"
    by (simp add: le_floor_iff)
  with round_half_even_ge_floor [of y] show ?thesis
    by linarith
qed

lemma round_half_even_upper: "y < of_int n \<Longrightarrow> round_half_even y \<le> n"
proof -
  assume "y < of_int n"
  then have "\<lfloor>y\<rfloor> < n"
    by (simp add: floor_less_iff)
  with round_half_even_le_floor_Suc [of y] show ?thesis
    by linarith
qed

text \<open>
  The overflow test of \<open>round_double\<close>, on the exponent and the significand, holds
  exactly when the rounded magnitude is \<open>2 ^ 1024\<close> or more.
\<close>

lemma round_double_overflow_iff:
  assumes "x \<noteq> 0"
  shows "(971 < max (floor_log2 \<bar>x\<bar> - 52) (- 1074) \<or>
          (max (floor_log2 \<bar>x\<bar> - 52) (- 1074) = 971 \<and>
           2 ^ 53 \<le> round_half_even (\<bar>x\<bar> / pow2 (max (floor_log2 \<bar>x\<bar> - 52) (- 1074))))) \<longleftrightarrow>
         pow2 1024 \<le>
           of_int (round_half_even (\<bar>x\<bar> / pow2 (max (floor_log2 \<bar>x\<bar> - 52) (- 1074)))) *
           pow2 (max (floor_log2 \<bar>x\<bar> - 52) (- 1074))"
proof -
  define a where "a = \<bar>x\<bar>"
  define l where "l = floor_log2 a"
  define e where "e = max (l - 52) (- 1074)"
  define y where "y = a / pow2 e"
  define m where "m = round_half_even y"
  from assms have a0: "0 < a"
    by (simp add: a_def)
  have lo: "pow2 l \<le> a" and hi: "a < pow2 (l + 1)"
    unfolding l_def using a0 by (rule floor_log2_bounds)+
  have pe: "0 < pow2 e"
    by (rule pow2_pos)
  have m0: "0 \<le> m"
  proof -
    have "0 \<le> y"
      using a0 pe by (simp add: y_def)
    then have "of_int 0 \<le> y"
      by simp
    then show ?thesis
      unfolding m_def by (rule round_half_even_lower)
  qed
  have yu: "y < pow2 (l + 1 - e)"
  proof -
    have "pow2 (l + 1) = pow2 (l + 1 - e) * pow2 e"
      using pow2_add [of "l + 1 - e" e] by simp
    with hi pe show ?thesis
      by (simp add: y_def divide_less_eq)
  qed
  have mu: "m \<le> 2 ^ 53"
  proof -
    have "l + 1 - e \<le> 53"
      by (simp add: e_def)
    then have "pow2 (l + 1 - e) \<le> pow2 53"
      by (rule pow2_mono)
    with yu have "y < pow2 53"
      by simp
    also have "pow2 53 = of_int (2 ^ 53)"
      by (simp add: pow2_def)
    finally show ?thesis
      unfolding m_def by (rule round_half_even_upper)
  qed
  have ml: "2 ^ 52 \<le> m" if "- 1074 \<le> l - 52"
  proof -
    from that have e: "e = l - 52"
      by (simp add: e_def)
    have "pow2 l = pow2 52 * pow2 e"
      using pow2_add [of 52 e] by (simp add: e)
    with lo pe have "pow2 52 \<le> y"
      by (simp add: y_def le_divide_eq)
    moreover have "pow2 52 = of_int (2 ^ 52)"
      by (simp add: pow2_def)
    ultimately have "of_int (2 ^ 52) \<le> y"
      by simp
    then show ?thesis
      unfolding m_def by (rule round_half_even_lower)
  qed
  have p1024: "pow2 1024 = 2 ^ 53 * pow2 971"
    using pow2_add [of 53 971] by (simp add: pow2_def)
  have "(971 < e \<or> (e = 971 \<and> 2 ^ 53 \<le> m)) \<longleftrightarrow> pow2 1024 \<le> of_int m * pow2 e"
  proof
    assume "971 < e \<or> (e = 971 \<and> 2 ^ 53 \<le> m)"
    then show "pow2 1024 \<le> of_int m * pow2 e"
    proof
      assume g: "971 < e"
      then have "- 1074 \<le> l - 52"
        by (simp add: e_def)
      then have "2 ^ 52 \<le> m"
        by (rule ml)
      then have "(2 ^ 52 :: rat) \<le> of_int m"
        by (metis of_int_le_iff of_int_numeral of_int_power)
      moreover have "pow2 972 \<le> pow2 e"
        using g by (intro pow2_mono) simp
      ultimately have "2 ^ 52 * pow2 972 \<le> of_int m * pow2 e"
        using pow2_pos [of 972] by (intro mult_mono) simp_all
      moreover have "pow2 1024 = 2 ^ 52 * pow2 972"
        using pow2_add [of 52 972] by (simp add: pow2_def)
      ultimately show ?thesis
        by simp
    next
      assume "e = 971 \<and> 2 ^ 53 \<le> m"
      then have e: "e = 971" and "2 ^ 53 \<le> m"
        by simp_all
      then have "(2 ^ 53 :: rat) \<le> of_int m"
        by (metis of_int_le_iff of_int_numeral of_int_power)
      then have "2 ^ 53 * pow2 971 \<le> of_int m * pow2 971"
        using pow2_pos [of 971] by (intro mult_right_mono) simp_all
      then show ?thesis
        by (simp only: p1024 e)
    qed
  next
    assume r: "pow2 1024 \<le> of_int m * pow2 e"
    show "971 < e \<or> (e = 971 \<and> 2 ^ 53 \<le> m)"
    proof (rule ccontr)
      assume "\<not> (971 < e \<or> (e = 971 \<and> 2 ^ 53 \<le> m))"
      then have le: "e \<le> 971" and lt: "e = 971 \<Longrightarrow> m < 2 ^ 53"
        by auto
      have mr: "(of_int m :: rat) \<le> 2 ^ 53"
        using mu by (metis of_int_le_iff of_int_numeral of_int_power)
      show False
      proof (cases "e = 971")
        case True
        then have "m < 2 ^ 53"
          by (rule lt)
        then have "(of_int m :: rat) < 2 ^ 53"
          by (metis of_int_less_iff of_int_numeral of_int_power)
        then have "of_int m * pow2 971 < 2 ^ 53 * pow2 971"
          using pow2_pos [of 971] by (intro mult_strict_right_mono) simp_all
        with r show False
          by (simp only: p1024 True)
      next
        case False
        with le have "e \<le> 970"
          by simp
        then have "pow2 e \<le> pow2 970"
          by (rule pow2_mono)
        with mr have "of_int m * pow2 e \<le> 2 ^ 53 * pow2 970"
          using m0 pow2_pos [of e] by (intro mult_mono) simp_all
        also have "2 ^ 53 * pow2 970 = pow2 1023"
          using pow2_add [of 53 970] by (simp add: pow2_def)
        also have "pow2 1023 < pow2 1024"
          by (simp add: pow2_power_int)
        finally show False
          using r by simp
      qed
    qed
  qed
  then show ?thesis
    unfolding m_def y_def e_def l_def a_def .
qed

lemma get_object_append:
  "get_object a (s @ t) = (if a < length s then get_object a s else get_object (a - length s) t)"
  by (auto simp add: get_object_def nth_append)

lemma get_object_prefix:
  assumes "prefix s0 s" and "get_object a s0 = Some v"
  shows "get_object a s = Some v"
proof -
  from assms(1) obtain t where "s = s0 @ t"
    by (auto simp add: prefix_def)
  with assms(2) show ?thesis
    by (auto simp add: get_object_def nth_append split: if_splits)
qed

lemma dict_item_prefix:
  assumes "prefix s0 s" and "dict_item key a s0 = Some v"
  shows "dict_item key a s = Some v"
proof -
  from assms(2) obtain x where x: "get_object a s0 = Some x"
    by (cases "get_object a s0") (simp_all add: dict_item_def)
  from get_object_prefix [OF assms(1) x] x assms(2) show ?thesis
    by (simp add: dict_item_def)
qed

lemma production_rows_prefix:
  assumes "prefix s0 s" and "production_rows a s0 = Some v"
  shows "production_rows a s = Some v"
proof -
  from assms(2) obtain x where x: "get_object a s0 = Some x"
    by (cases "get_object a s0") (simp_all add: production_rows_def)
  from get_object_prefix [OF assms(1) x] x assms(2) show ?thesis
    by (simp add: production_rows_def)
qed

lemma capacity_rows_prefix:
  assumes "prefix s0 s" and "capacity_rows a s0 = Some v"
  shows "capacity_rows a s = Some v"
proof -
  from assms(2) obtain x where x: "get_object a s0 = Some x"
    by (cases "get_object a s0") (simp_all add: capacity_rows_def)
  from get_object_prefix [OF assms(1) x] x assms(2) show ?thesis
    by (simp add: capacity_rows_def)
qed

lemma mrp_rows_prefix:
  assumes "prefix s0 s" and "mrp_rows a s0 = Some v"
  shows "mrp_rows a s = Some v"
proof -
  from assms(2) obtain x where x: "get_object a s0 = Some x"
    by (cases "get_object a s0") (simp_all add: mrp_rows_def)
  from get_object_prefix [OF assms(1) x] x assms(2) show ?thesis
    by (simp add: mrp_rows_def)
qed

lemma procurement_value_prefix:
  assumes "prefix s0 s" and "procurement_value a s0 = Some v"
  shows "procurement_value a s = Some v"
proof -
  from assms(2) obtain x where x: "get_object a s0 = Some x"
    by (cases "get_object a s0") (simp_all add: procurement_value_def)
  from get_object_prefix [OF assms(1) x] x assms(2) show ?thesis
    by (simp add: procurement_value_def)
qed

lemma imports_value_prefix:
  assumes "prefix s0 s" and "imports_value a s0 = Some v"
  shows "imports_value a s = Some v"
proof -
  from assms(2) obtain x where x: "get_object a s0 = Some x"
    by (cases "get_object a s0") (simp_all add: imports_value_def)
  from get_object_prefix [OF assms(1) x] x assms(2) show ?thesis
    by (simp add: imports_value_def)
qed

lemma warehouse_value_prefix:
  assumes "prefix s0 s" and "warehouse_value a s0 = Some v"
  shows "warehouse_value a s = Some v"
proof -
  from assms(2) obtain x where x: "get_object a s0 = Some x"
    by (cases "get_object a s0") (simp_all add: warehouse_value_def)
  from get_object_prefix [OF assms(1) x] x assms(2) show ?thesis
    by (simp add: warehouse_value_def)
qed

text \<open>What a store holds as its snapshot, an extension of the store holds too.\<close>

lemma snapshot_at_prefix:
  assumes "prefix s0 s" and "snapshot_at data s0 = Some d"
  shows "snapshot_at data s = Some d"
  using assms(2)
  by (auto simp add: snapshot_at_def bind_eq_Some_conv
      dict_item_prefix [OF assms(1)] production_rows_prefix [OF assms(1)]
      capacity_rows_prefix [OF assms(1)] mrp_rows_prefix [OF assms(1)]
      procurement_value_prefix [OF assms(1)] imports_value_prefix [OF assms(1)]
      warehouse_value_prefix [OF assms(1)])

lemma snapshot_atD:
  assumes "snapshot_at data s = Some d"
  shows "\<exists>p. dict_item ''production'' data s = Some p \<and> production_rows p s = Some (production d)"
    and "\<exists>c. dict_item ''capacity'' data s = Some c \<and> capacity_rows c s = Some (capacity d)"
    and "\<exists>m. dict_item ''mrp'' data s = Some m \<and> mrp_rows m s = Some (mrp d)"
    and "\<exists>q. dict_item ''procurement'' data s = Some q \<and>
           procurement_value q s = Some (procurement d)"
  using assms by (auto simp add: snapshot_at_def bind_eq_Some_conv)

lemma list_items_less: "list_items a s = Some xs \<Longrightarrow> a < length s"
  by (simp add: list_items_def get_object_def split: if_splits)

lemma list_items_update:
  "a < length s \<Longrightarrow>
   list_items b (s[a := List_Obj xs]) = (if b = a then Some xs else list_items b s)"
  by (simp add: list_items_def get_object_def)

lemma list_items_new_object:
  "list_items a s = Some xs \<Longrightarrow> list_items a (s @ [v]) = Some xs"
  by (auto simp add: list_items_def get_object_def nth_append split: if_splits)

lemma list_append_items:
  "list_items a s = Some xs \<Longrightarrow> list_append a x s = Some (s[a := List_Obj (xs @ [x])])"
  by (auto simp add: list_items_def list_append_def split: option.splits obj.splits)

lemma prefix_update_beyond:
  assumes "prefix s0 s" and "length s0 \<le> a"
  shows "prefix s0 (s[a := v])"
proof -
  from assms(1) obtain t where "s = s0 @ t"
    by (auto simp add: prefix_def)
  with assms(2) show ?thesis
    by (simp add: list_update_append)
qed

lemma holds_lists_new_object:
  assumes "holds_lists s0 c h m st s"
  shows "holds_lists s0 c h m st (s @ [v])"
  using assms by (auto simp add: holds_lists_def list_items_new_object)

lemma holds_lists_append_critical:
  assumes "holds_lists s0 c h m st s"
  shows "\<exists>s'. list_append c x s = Some s' \<and>
           holds_lists s0 c h m (st\<lparr>critical_issues := critical_issues st @ [x]\<rparr>) s'"
proof -
  from assms have i: "list_items c s = Some (critical_issues st)"
    by (simp add: holds_lists_def)
  have l: "c < length s"
    using i by (rule list_items_less)
  have "holds_lists s0 c h m (st\<lparr>critical_issues := critical_issues st @ [x]\<rparr>)
          (s[c := List_Obj (critical_issues st @ [x])])"
    using assms l by (simp add: holds_lists_def list_items_update prefix_update_beyond)
  with list_append_items [OF i] show ?thesis
    by simp
qed

lemma holds_lists_append_high:
  assumes "holds_lists s0 c h m st s"
  shows "\<exists>s'. list_append h x s = Some s' \<and>
           holds_lists s0 c h m (st\<lparr>high_issues := high_issues st @ [x]\<rparr>) s'"
proof -
  from assms have i: "list_items h s = Some (high_issues st)"
    by (simp add: holds_lists_def)
  have l: "h < length s"
    using i by (rule list_items_less)
  have "holds_lists s0 c h m (st\<lparr>high_issues := high_issues st @ [x]\<rparr>)
          (s[h := List_Obj (high_issues st @ [x])])"
    using assms l by (simp add: holds_lists_def list_items_update prefix_update_beyond)
  with list_append_items [OF i] show ?thesis
    by simp
qed

lemma holds_lists_append_medium:
  assumes "holds_lists s0 c h m st s"
  shows "\<exists>s'. list_append m x s = Some s' \<and>
           holds_lists s0 c h m (st\<lparr>medium_issues := medium_issues st @ [x]\<rparr>) s'"
proof -
  from assms have i: "list_items m s = Some (medium_issues st)"
    by (simp add: holds_lists_def)
  have l: "m < length s"
    using i by (rule list_items_less)
  have "holds_lists s0 c h m (st\<lparr>medium_issues := medium_issues st @ [x]\<rparr>)
          (s[m := List_Obj (medium_issues st @ [x])])"
    using assms l by (simp add: holds_lists_def list_items_update prefix_update_beyond)
  with list_append_items [OF i] show ?thesis
    by simp
qed

lemma holds_lists_prefix: "holds_lists s0 c h m st s \<Longrightarrow> prefix s0 s"
  by (simp add: holds_lists_def)

text \<open>Each rule on the store does to the three lists what the rule does to its state.\<close>

lemma production_analysis_store_run:
  assumes "holds_lists s0 c h m st s" and "production_rows p s0 = Some rows"
  shows "\<exists>s'. production_analysis_store p c s = Some s' \<and>
           holds_lists s0 c h m (production_analysis rows st) s'"
proof -
  have r: "production_rows p s = Some rows"
    using holds_lists_prefix [OF assms(1)] assms(2) by (rule production_rows_prefix)
  show ?thesis
  proof (cases "sum_list (map Variance rows) < - 3000")
    case True
    with holds_lists_append_critical [OF assms(1)] show ?thesis
      by (simp add: production_analysis_store_def production_analysis_def r append_if_def)
  next
    case False
    with assms(1) show ?thesis
      by (simp add: production_analysis_store_def production_analysis_def r append_if_def)
  qed
qed

lemma production_rows_new_frame:
  "production_rows (length s) (s @ [Frame_Obj (Production_Frame rs)]) = Some rs"
  by (simp add: production_rows_def get_object_def)

lemma mrp_rows_new_frame:
  "mrp_rows (length s) (s @ [Frame_Obj (Mrp_Frame rs)]) = Some rs"
  by (simp add: mrp_rows_def get_object_def)

lemma feeding_analysis_store_run:
  assumes "holds_lists s0 c h m st s" and "production_rows p s0 = Some rows"
  shows "\<exists>s'. feeding_analysis_store p c s = Some s' \<and>
           holds_lists s0 c h m (feeding_analysis rows st) s'"
proof -
  have r: "production_rows p s = Some rows"
    using holds_lists_prefix [OF assms(1)] assms(2) by (rule production_rows_prefix)
  define sel where "sel = filter (reason_contains ''FEEDING ISSUE'') rows"
  define s1 where "s1 = s @ [Frame_Obj (Production_Frame sel)]"
  have h1: "holds_lists s0 c h m st s1"
    unfolding s1_def using assms(1) by (rule holds_lists_new_object)
  have f: "feeding_analysis_store p c s =
             append_if (3 \<le> length sel) c (feeding_message (length sel)) s1"
    by (simp add: feeding_analysis_store_def r new_object_def production_rows_new_frame
        sel_def s1_def)
  show ?thesis
  proof (cases "3 \<le> length sel")
    case True
    with holds_lists_append_critical [OF h1] show ?thesis
      by (simp add: f feeding_analysis_def append_if_def sel_def Let_def)
  next
    case False
    with h1 show ?thesis
      by (simp add: f feeding_analysis_def append_if_def sel_def Let_def)
  qed
qed

lemma capacity_loop_store_run:
  assumes "holds_lists s0 c h m st s"
  shows "\<exists>s'. capacity_loop_store rows c h s = Some s' \<and>
           holds_lists s0 c h m (fold capacity_row rows st) s'"
  using assms
proof (induction rows arbitrary: st s)
  case Nil
  then show ?case by simp
next
  case (Cons row rows)
  consider (crit) "Utilization row < 20"
    | (high) "\<not> Utilization row < 20" "Utilization row < 40"
    | (none) "\<not> Utilization row < 20" "\<not> Utilization row < 40"
    by blast
  then show ?case
  proof cases
    case crit
    from holds_lists_append_critical [OF Cons.prems, of "capacity_critical_message row"]
    obtain s1 where a: "list_append c (capacity_critical_message row) s = Some s1"
      and b: "holds_lists s0 c h m
                (st\<lparr>critical_issues := critical_issues st @ [capacity_critical_message row]\<rparr>) s1"
      by blast
    from Cons.IH [OF b] crit a show ?thesis
      by (simp add: capacity_row_def)
  next
    case high
    from holds_lists_append_high [OF Cons.prems, of "capacity_high_message row"]
    obtain s1 where a: "list_append h (capacity_high_message row) s = Some s1"
      and b: "holds_lists s0 c h m
                (st\<lparr>high_issues := high_issues st @ [capacity_high_message row]\<rparr>) s1"
      by blast
    from Cons.IH [OF b] high a show ?thesis
      by (simp add: capacity_row_def)
  next
    case none
    from Cons.IH [OF Cons.prems] none show ?thesis
      by (simp add: capacity_row_def)
  qed
qed

lemma capacity_utilization_store_run:
  assumes "holds_lists s0 c h m st s" and "capacity_rows p s0 = Some rows"
  shows "\<exists>s'. capacity_utilization_store p c h s = Some s' \<and>
           holds_lists s0 c h m (capacity_utilization rows st) s'"
proof -
  have r: "capacity_rows p s = Some rows"
    using holds_lists_prefix [OF assms(1)] assms(2) by (rule capacity_rows_prefix)
  from capacity_loop_store_run [OF assms(1)] show ?thesis
    by (simp add: capacity_utilization_store_def capacity_utilization_def r)
qed

lemma mrp_issues_store_run:
  assumes "holds_lists s0 c h m st s" and "mrp_rows p s0 = Some rows"
  shows "\<exists>s'. mrp_issues_store p h s = Some s' \<and>
           holds_lists s0 c h m (mrp_issues rows st) s'"
proof -
  have r: "mrp_rows p s = Some rows"
    using holds_lists_prefix [OF assms(1)] assms(2) by (rule mrp_rows_prefix)
  define sel where "sel = filter (\<lambda>order. Status order = ''Critical'') rows"
  define s1 where "s1 = s @ [Frame_Obj (Mrp_Frame sel)]"
  have h1: "holds_lists s0 c h m st s1"
    unfolding s1_def using assms(1) by (rule holds_lists_new_object)
  have f: "mrp_issues_store p h s = append_if (0 < length sel) h (mrp_message (length sel)) s1"
    by (simp add: mrp_issues_store_def r new_object_def mrp_rows_new_frame sel_def s1_def)
  show ?thesis
  proof (cases "0 < length sel")
    case True
    with holds_lists_append_high [OF h1] show ?thesis
      by (simp add: f mrp_issues_def append_if_def sel_def Let_def)
  next
    case False
    with h1 show ?thesis
      by (simp add: f mrp_issues_def append_if_def sel_def Let_def)
  qed
qed

lemma procurement_issues_store_run:
  assumes "holds_lists s0 c h m st s" and "procurement_value p s0 = Some proc"
  shows "\<exists>err s'. procurement_issues_store p m s = Some (err, s') \<and> prefix s0 s' \<and>
           (case procurement_issues proc st of
              Inl e \<Rightarrow> err = Some e
            | Inr st' \<Rightarrow> err = None \<and> holds_lists s0 c h m st' s')"
proof -
  have r: "procurement_value p s = Some proc"
    using holds_lists_prefix [OF assms(1)] assms(2) by (rule procurement_value_prefix)
  show ?thesis
  proof (cases "py_truediv (Count (PO_Pending proc)) (Count (PO_Issued proc))")
    case (Inl e)
    with holds_lists_prefix [OF assms(1)] show ?thesis
      by (simp add: procurement_issues_store_def procurement_issues_def r)
  next
    case (Inr ratio)
    show ?thesis
    proof (cases "float_gt ratio (round_double (3 / 10))")
      case True
      from holds_lists_append_medium [OF assms(1), of "pending_message ratio"]
      obtain s1 where a: "list_append m (pending_message ratio) s = Some s1"
        and b: "holds_lists s0 c h m
                  (st\<lparr>medium_issues := medium_issues st @ [pending_message ratio]\<rparr>) s1"
        by blast
      with Inr True holds_lists_prefix [OF b] show ?thesis
        by (simp add: procurement_issues_store_def procurement_issues_def r append_if_def)
    next
      case False
      with Inr assms(1) holds_lists_prefix [OF assms(1)] show ?thesis
        by (simp add: procurement_issues_store_def procurement_issues_def r append_if_def)
    qed
  qed
qed

lemma holds_lists_init:
  "holds_lists s (length s) (Suc (length s)) (Suc (Suc (length s)))
     \<lparr>critical_issues = [], high_issues = [], medium_issues = []\<rparr>
     (s @ [List_Obj [], List_Obj [], List_Obj []])"
  by (simp add: holds_lists_def list_items_def get_object_def nth_append)

lemma issue_lists_held:
  assumes "holds_lists s0 c h m st s"
  shows "issue_lists (Inr (c, h, m)) s =
           Some (Inr (critical_issues st, high_issues st, medium_issues st))"
  using assms by (simp add: holds_lists_def issue_lists_def)

text \<open>
  The run on a store that holds the snapshot \<open>d\<close> ends, leaves every object of the store
  as it was, and its outcome is the one of the classifier on \<open>d\<close>.
\<close>

lemma analyze_critical_issues_store_run:
  assumes "snapshot_at data s = Some d"
  shows "\<exists>res s'. analyze_critical_issues_store data s = Some (res, s') \<and> prefix s s' \<and>
           issue_lists res s' = Some (analyze_critical_issues d)"
proof -
  from snapshot_atD [OF assms] obtain p c m q
    where p: "dict_item ''production'' data s = Some p" "production_rows p s = Some (production d)"
      and c: "dict_item ''capacity'' data s = Some c" "capacity_rows c s = Some (capacity d)"
      and m: "dict_item ''mrp'' data s = Some m" "mrp_rows m s = Some (mrp d)"
      and q: "dict_item ''procurement'' data s = Some q"
             "procurement_value q s = Some (procurement d)"
    by blast
  define ci where "ci = length s"
  define hi where "hi = Suc (length s)"
  define mi where "mi = Suc (Suc (length s))"
  define st0 where "st0 = \<lparr>critical_issues = [], high_issues = [], medium_issues = []\<rparr>"
  define sa where "sa = s @ [List_Obj [], List_Obj [], List_Obj []]"
  define st1 where "st1 = production_analysis (production d) st0"
  define st2 where "st2 = feeding_analysis (production d) st1"
  define st3 where "st3 = capacity_utilization (capacity d) st2"
  define st4 where "st4 = mrp_issues (mrp d) st3"
  have pure: "analyze_critical_issues d =
      (case procurement_issues (procurement d) st4 of
         Inl err \<Rightarrow> Inl err
       | Inr st \<Rightarrow> Inr (critical_issues st, high_issues st, medium_issues st))"
    by (simp add: analyze_critical_issues_def st4_def st3_def st2_def st1_def st0_def)
  have h0: "holds_lists s ci hi mi st0 sa"
    unfolding ci_def hi_def mi_def st0_def sa_def by (rule holds_lists_init)
  from production_analysis_store_run [OF h0 p(2)] obtain s1
    where r1: "production_analysis_store p ci sa = Some s1" and h1: "holds_lists s ci hi mi st1 s1"
    unfolding st1_def by blast
  from feeding_analysis_store_run [OF h1 p(2)] obtain s2
    where r2: "feeding_analysis_store p ci s1 = Some s2" and h2: "holds_lists s ci hi mi st2 s2"
    unfolding st2_def by blast
  from capacity_utilization_store_run [OF h2 c(2)] obtain s3
    where r3: "capacity_utilization_store c ci hi s2 = Some s3"
      and h3: "holds_lists s ci hi mi st3 s3"
    unfolding st3_def by blast
  from mrp_issues_store_run [OF h3 m(2)] obtain s4
    where r4: "mrp_issues_store m hi s3 = Some s4" and h4: "holds_lists s ci hi mi st4 s4"
    unfolding st4_def by blast
  from procurement_issues_store_run [OF h4 q(2)] obtain err s5
    where r5: "procurement_issues_store q mi s4 = Some (err, s5)" and x5: "prefix s s5"
      and o5: "case procurement_issues (procurement d) st4 of
                 Inl e \<Rightarrow> err = Some e
               | Inr st' \<Rightarrow> err = None \<and> holds_lists s ci hi mi st' s5"
    by blast
  have d0: "dict_item ''production'' data sa = Some p"
    using holds_lists_prefix [OF h0] p(1) by (rule dict_item_prefix)
  have d2: "dict_item ''capacity'' data s2 = Some c"
    using holds_lists_prefix [OF h2] c(1) by (rule dict_item_prefix)
  have d3: "dict_item ''mrp'' data s3 = Some m"
    using holds_lists_prefix [OF h3] m(1) by (rule dict_item_prefix)
  have d4: "dict_item ''procurement'' data s4 = Some q"
    using holds_lists_prefix [OF h4] q(1) by (rule dict_item_prefix)
  note steps = d0 r1 r2 d2 r3 d3 r4 d4 r5
  note steps' = steps [unfolded ci_def hi_def mi_def sa_def]
  have run: "analyze_critical_issues_store data s =
      Some (case err of Some e \<Rightarrow> Inl e | None \<Rightarrow> Inr (ci, hi, mi), s5)"
  proof (cases err)
    case None
    with steps' show ?thesis
      by (simp add: analyze_critical_issues_store_def new_object_def ci_def hi_def mi_def)
  next
    case (Some e)
    with steps' show ?thesis
      by (simp add: analyze_critical_issues_store_def new_object_def)
  qed
  have "issue_lists (case err of Some e \<Rightarrow> Inl e | None \<Rightarrow> Inr (ci, hi, mi)) s5 =
          Some (analyze_critical_issues d)"
  proof (cases "procurement_issues (procurement d) st4")
    case (Inl e)
    with o5 show ?thesis
      by (simp add: pure issue_lists_def)
  next
    case (Inr st')
    with o5 have "err = None" and "holds_lists s ci hi mi st' s5"
      by simp_all
    with issue_lists_held [of s ci hi mi st' s5] Inr show ?thesis
      by (simp add: pure)
  qed
  with run x5 show ?thesis
    by blast
qed

lemma snapshot_compiled_in_store: "snapshot_at 0 compiled_in_store = Some parse_supply_chain_data"
  by code_simp




subsection \<open>Claims\<close>

text \<open>
  C9: on the compiled-in snapshot the classifier returns four critical issues (the
  production shortfall of 5,241 units, 3 days of feeding issues from cutting, Stitching
  capacity at 14%, Lasting capacity at 0%, in this order), one high issue (2 orders with
  material unavailability) and one medium issue citing 39.1% of POs pending.
\<close>

theorem compiled_in_snapshot_issues:
  "analyze_critical_issues parse_supply_chain_data =
     Inr ([emoji_siren @ '' CRITICAL: Production shortfall of 5,241 units'',
           emoji_fire @ '' CRITICAL: 3 days of feeding issues from cutting'',
           emoji_warning @ '' CRITICAL: Stitching capacity at 14%'',
           emoji_warning @ '' CRITICAL: Lasting capacity at 0%''],
          [emoji_clipboard @ '' HIGH: 2 orders with material unavailability''],
          [emoji_package @ '' MEDIUM: 39.1% of POs pending''])"
  by code_simp

text \<open>
  C3: when the variances of the production records sum to exactly -3000, the classifier
  emits no production-shortfall issue; when they sum to -3001, it emits exactly one, whose
  text cites the shortfall as "3,001".
\<close>

theorem production_shortfall_threshold:
  assumes "analyze_critical_issues d = Inr (c, h, m)"
  shows "(sum_list (map Variance (production d)) = - 3000 \<longrightarrow>
            filter is_shortfall_issue c = []) \<and>
         (sum_list (map Variance (production d)) = - 3001 \<longrightarrow>
            filter is_shortfall_issue c =
              [emoji_siren @ '' CRITICAL: Production shortfall of 3,001 units''] \<and>
            str_contains ''3,001''
              (emoji_siren @ '' CRITICAL: Production shortfall of 3,001 units''))"
proof -
  have c: "filter is_shortfall_issue c = shortfall_part (production d)"
    by (simp add: analyze_critical_issues_InrD(1) [OF assms] filter_shortfall_part
        filter_shortfall_feeding_part filter_shortfall_capacity)
  show ?thesis
    by (simp add: c shortfall_part_def shortfall_message_3001 contains_3001)
qed

theorem production_shortfall_threshold_witness:
  "sum_list (map Variance (production (snapshot_with_variance (- 3000)))) = - 3000 \<and>
   (\<exists>c h m. analyze_critical_issues (snapshot_with_variance (- 3000)) = Inr (c, h, m) \<and>
      filter is_shortfall_issue c = []) \<and>
   sum_list (map Variance (production (snapshot_with_variance (- 3001)))) = - 3001 \<and>
   (\<exists>c h m. analyze_critical_issues (snapshot_with_variance (- 3001)) = Inr (c, h, m) \<and>
      filter is_shortfall_issue c =
        [emoji_siren @ '' CRITICAL: Production shortfall of 3,001 units''])"
  using production_shortfall_threshold [OF analyze_variance_3000]
    production_shortfall_threshold [OF analyze_variance_3001]
    analyze_variance_3000 analyze_variance_3001
  by (simp add: sum_variance_snapshot_with_variance)

text \<open>
  C6: the classifier counts the production records whose reason text contains the
  substring "FEEDING ISSUE", compared byte for byte, and emits exactly one critical issue
  citing the count when the count is at least 3, and none otherwise. The compiled-in
  records hold three such reasons (a fourth one, in lower case, does not count), which
  gives exactly one issue, "3 days of feeding issues from cutting".
\<close>

theorem feeding_issue_rule:
  assumes "analyze_critical_issues d = Inr (c, h, m)"
  shows "filter is_feeding_issue c =
           (if 3 \<le> length (filter (\<lambda>r. \<exists>s p q. Reason r = Some s \<and> s = p @ ''FEEDING ISSUE'' @ q)
                              (production d))
            then [emoji_fire @ '' CRITICAL: '' @
                  str_int (int (length (filter (\<lambda>r. \<exists>s p q. Reason r = Some s \<and>
                                                   s = p @ ''FEEDING ISSUE'' @ q) (production d)))) @
                  '' days of feeding issues from cutting'']
            else []) \<and>
         (d = parse_supply_chain_data \<longrightarrow>
            filter is_feeding_issue c =
              [emoji_fire @ '' CRITICAL: 3 days of feeding issues from cutting''])"
proof -
  have c: "filter is_feeding_issue c = feeding_part (production d)"
    by (simp add: analyze_critical_issues_InrD(1) [OF assms] filter_feeding_part
        filter_feeding_shortfall_part filter_feeding_capacity)
  have e: "(\<lambda>r. \<exists>s p q. Reason r = Some s \<and> s = p @ ''FEEDING ISSUE'' @ q) =
           reason_contains ''FEEDING ISSUE''"
    by (rule ext) (simp add: reason_contains_iff)
  have g: "filter is_feeding_issue c =
           (if 3 \<le> length (filter (reason_contains ''FEEDING ISSUE'') (production d))
            then [emoji_fire @ '' CRITICAL: '' @
                  str_int (int (length (filter (reason_contains ''FEEDING ISSUE'') (production d)))) @
                  '' days of feeding issues from cutting'']
            else [])"
    by (simp add: c feeding_part_def feeding_message_def)
  have x: "d = parse_supply_chain_data \<longrightarrow>
            filter is_feeding_issue c =
              [emoji_fire @ '' CRITICAL: 3 days of feeding issues from cutting'']"
    using c by (simp add: feeding_part_compiled_in)
  show ?thesis
    unfolding e using g x by blast
qed

theorem feeding_issue_rule_witness:
  "\<exists>c h m. analyze_critical_issues parse_supply_chain_data = Inr (c, h, m) \<and>
     filter is_feeding_issue c =
       [emoji_fire @ '' CRITICAL: 3 days of feeding issues from cutting'']"
proof -
  note f = mp [OF conjunct2 [OF feeding_issue_rule [OF analyze_compiled_in]] refl]
  show ?thesis
    using analyze_compiled_in f by blast
qed

text \<open>
  C10: the MRP rule reads the \<^verbatim>\<open>Status\<close> field only. Two snapshots that are
  identical except for the \<^verbatim>\<open>Ordered\<close> and \<^verbatim>\<open>Available\<close> flags of their MRP
  orders get the same outcome from the classifier.
\<close>

theorem mrp_flags_irrelevant:
  assumes "same_up_to_mrp_flags d1 d2"
  shows "analyze_critical_issues d1 = analyze_critical_issues d2"
proof -
  from assms have eqs: "production d1 = production d2" "capacity d1 = capacity d2"
    "procurement d1 = procurement d2"
    and rel: "list_all2 (\<lambda>a b. Order a = Order b \<and> Status a = Status b) (mrp d1) (mrp d2)"
    by (simp_all add: same_up_to_mrp_flags_def)
  have m: "mrp_part (mrp d1) = mrp_part (mrp d2)"
    using rel by (rule mrp_part_cong)
  show ?thesis
    by (simp add: analyze_critical_issues_eq eqs m split: sum.splits)
qed

theorem mrp_flags_irrelevant_witness:
  "same_up_to_mrp_flags parse_supply_chain_data (snapshot_with_flags ''No'' ''Yes'') \<and>
   mrp parse_supply_chain_data \<noteq> mrp (snapshot_with_flags ''No'' ''Yes'') \<and>
   analyze_critical_issues parse_supply_chain_data =
     analyze_critical_issues (snapshot_with_flags ''No'' ''Yes'')"
  using mrp_flags_irrelevant [OF same_flags_compiled_in] same_flags_compiled_in
    flags_differ_compiled_in
  by simp

text \<open>
  C5: every capacity record gives at most one capacity issue. The critical list holds,
  in the order of the records, one issue naming the department and the percentage for
  each record with a utilization below 20; the high list holds one for each record with a
  utilization of at least 20 and below 40; no record is counted in both, so there are as
  many capacity issues as records with a utilization below 40.
\<close>

theorem capacity_issue_per_department:
  assumes "analyze_critical_issues d = Inr (c, h, m)"
  shows "filter is_capacity_critical c =
           map (\<lambda>r. emoji_warning @ '' CRITICAL: '' @ Department r @ '' capacity at '' @
                     str_int (Utilization r) @ ''%'')
             (filter (\<lambda>r. Utilization r < 20) (capacity d)) \<and>
         filter is_capacity_high h =
           map (\<lambda>r. emoji_orange_diamond @ '' HIGH: '' @ Department r @
                     '' underutilized at '' @ str_int (Utilization r) @ ''%'')
             (filter (\<lambda>r. 20 \<le> Utilization r \<and> Utilization r < 40) (capacity d)) \<and>
         length (filter is_capacity_critical c) + length (filter is_capacity_high h) =
           length (filter (\<lambda>r. Utilization r < 40) (capacity d))"
proof -
  have c: "filter is_capacity_critical c =
             map capacity_critical_message (filter (\<lambda>r. Utilization r < 20) (capacity d))"
    by (simp only: analyze_critical_issues_InrD(1) [OF assms] filter_capacity_critical)
  have h: "filter is_capacity_high h =
             map capacity_high_message
               (filter (\<lambda>r. 20 \<le> Utilization r \<and> Utilization r < 40) (capacity d))"
    by (simp only: analyze_critical_issues_InrD(2) [OF assms] filter_capacity_high)
  have n: "length (filter is_capacity_critical c) + length (filter is_capacity_high h) =
           length (filter (\<lambda>r. Utilization r < 40) (capacity d))"
    by (simp only: c h length_map length_filter_split)
  have cm: "capacity_critical_message =
            (\<lambda>r. emoji_warning @ '' CRITICAL: '' @ Department r @ '' capacity at '' @
                  str_int (Utilization r) @ ''%'')"
    by (rule ext) (simp add: capacity_critical_message_def)
  have hm: "capacity_high_message =
            (\<lambda>r. emoji_orange_diamond @ '' HIGH: '' @ Department r @ '' underutilized at '' @
                  str_int (Utilization r) @ ''%'')"
    by (rule ext) (simp add: capacity_high_message_def)
  show ?thesis
    using c h n unfolding cm hm by blast
qed

theorem capacity_issue_per_department_witness:
  "\<exists>c h m. analyze_critical_issues (snapshot_with_capacity boundary_capacity) = Inr (c, h, m) \<and>
     filter is_capacity_critical c = [emoji_warning @ '' CRITICAL: A capacity at 19%''] \<and>
     filter is_capacity_high h =
       [emoji_orange_diamond @ '' HIGH: B underutilized at 20%'',
        emoji_orange_diamond @ '' HIGH: C underutilized at 39%'']"
proof -
  note f = capacity_issue_per_department [OF analyze_boundary_capacity]
  show ?thesis
    using analyze_boundary_capacity f [THEN conjunct1] f [THEN conjunct2, THEN conjunct1]
    unfolding boundary_capacity_messages by blast
qed

text \<open>
  C4: when the pending count divided by the issued count is exactly three tenths, the
  classifier emits no medium issue; when it is exactly 31 hundredths, the classifier
  emits exactly one medium issue, whose text contains "31.0%".
\<close>

theorem pending_ratio_threshold:
  "(of_int (Count (PO_Pending (procurement d))) / of_int (Count (PO_Issued (procurement d))) =
      (3 / 10 :: rat) \<longrightarrow>
      (\<exists>c h. analyze_critical_issues d = Inr (c, h, []))) \<and>
   (of_int (Count (PO_Pending (procurement d))) / of_int (Count (PO_Issued (procurement d))) =
      (31 / 100 :: rat) \<longrightarrow>
      (\<exists>c h. analyze_critical_issues d =
         Inr (c, h, [emoji_package @ '' MEDIUM: 31.0% of POs pending''])) \<and>
      str_contains ''31.0%'' (emoji_package @ '' MEDIUM: 31.0% of POs pending''))"
proof (intro conjI impI)
  assume "of_int (Count (PO_Pending (procurement d))) /
          of_int (Count (PO_Issued (procurement d))) = (3 / 10 :: rat)"
  then have "py_truediv (Count (PO_Pending (procurement d))) (Count (PO_Issued (procurement d))) =
             Inr (round_double (3 / 10))"
    by (rule py_truediv_ratio) (simp_all add: not_inf_3_10)
  then show "\<exists>c h. analyze_critical_issues d = Inr (c, h, [])"
    by (simp add: analyze_critical_issues_eq pending_part_3_10)
next
  assume "of_int (Count (PO_Pending (procurement d))) /
          of_int (Count (PO_Issued (procurement d))) = (31 / 100 :: rat)"
  then have "py_truediv (Count (PO_Pending (procurement d))) (Count (PO_Issued (procurement d))) =
             Inr (round_double (31 / 100))"
    by (rule py_truediv_ratio) (simp_all add: not_inf_31_100)
  then show "\<exists>c h. analyze_critical_issues d =
               Inr (c, h, [emoji_package @ '' MEDIUM: 31.0% of POs pending''])"
    by (simp add: analyze_critical_issues_eq pending_part_31_100)
next
  show "str_contains ''31.0%'' (emoji_package @ '' MEDIUM: 31.0% of POs pending'')"
    by (rule contains_31_0)
qed

theorem pending_ratio_threshold_witness:
  "(of_int 30 / of_int 100 = (3 / 10 :: rat)) \<and>
   (\<exists>c h. analyze_critical_issues (snapshot_with_counts 30 100) = Inr (c, h, [])) \<and>
   (of_int 31 / of_int 100 = (31 / 100 :: rat)) \<and>
   (\<exists>c h. analyze_critical_issues (snapshot_with_counts 31 100) =
      Inr (c, h, [emoji_package @ '' MEDIUM: 31.0% of POs pending'']))"
  using pending_ratio_threshold [of "snapshot_with_counts 30 100"]
    pending_ratio_threshold [of "snapshot_with_counts 31 100"]
  by (simp add: ratio_snapshot_with_counts)

text \<open>
  C8: for a snapshot with the planned quantities 800, 800, 800, 2000, 2000, 2000 and the
  actual quantities 936, 1180, 650, 0, 0, 393, the production efficiency is
  3159 / 8400 * 100, computed in floating point, its rendering to one decimal is 37.6,
  and every summary report of the snapshot holds the line "Production Efficiency: 37.6%".
\<close>

theorem production_efficiency_example:
  assumes "map Planned_Qty (production d) = [800, 800, 800, 2000, 2000, 2000]"
    and "map Actual_Qty (production d) = [936, 1180, 650, 0, 0, 393]"
  shows "production_efficiency d = float_mul (np_true_divide 3159 8400) (Finite 100) \<and>
         format_f1 (production_efficiency d) = ''37.6'' \<and>
         (\<forall>report. create_summary_report report_date float_str d critical high medium = Inr report
            \<longrightarrow> str_contains ''- **Production Efficiency:** 37.6%'' report)"
proof -
  have e: "production_efficiency d = float_mul (np_true_divide 3159 8400) (Finite 100)"
    by (simp add: production_efficiency_def assms)
  have f: "format_f1 (production_efficiency d) = ''37.6''"
    by (simp only: e efficiency_example)
  have l: "efficiency_line d = ''- **Production Efficiency:** 37.6%'' @ newline"
    by (simp add: efficiency_line_def f)
  have "str_contains ''- **Production Efficiency:** 37.6%'' report"
    if "create_summary_report report_date float_str d critical high medium = Inr report"
    for report
  proof -
    from create_summary_report_InrD [OF that] obtain x po_rate
      where r: "report = x @ key_metrics d po_rate @ recommendations float_str d"
      by blast
    obtain y z where k: "key_metrics d po_rate = y @ efficiency_line d @ z"
      using key_metrics_efficiency_line by blast
    have "str_contains ''- **Production Efficiency:** 37.6%'' (efficiency_line d)"
      unfolding l by (rule str_contains_prefix)
    then have "str_contains ''- **Production Efficiency:** 37.6%'' (key_metrics d po_rate)"
      unfolding k by (rule str_contains_mid)
    then show ?thesis
      unfolding r by (rule str_contains_mid)
  qed
  with e f show ?thesis
    by blast
qed

theorem production_efficiency_example_witness:
  "map Planned_Qty (production parse_supply_chain_data) = [800, 800, 800, 2000, 2000, 2000] \<and>
   map Actual_Qty (production parse_supply_chain_data) = [936, 1180, 650, 0, 0, 393] \<and>
   format_f1 (production_efficiency parse_supply_chain_data) = ''37.6'' \<and>
   (\<exists>report. create_summary_report ''03-Nov-2026 10:00'' (\<lambda>x. ''17.93'')
                parse_supply_chain_data [] [] [] = Inr report \<and>
              str_contains ''- **Production Efficiency:** 37.6%'' report)"
proof -
  note f = production_efficiency_example [OF quantities_compiled_in,
      of "''03-Nov-2026 10:00''" "\<lambda>x. ''17.93''" "[]" "[]" "[]"]
  obtain report where r: "create_summary_report ''03-Nov-2026 10:00'' (\<lambda>x. ''17.93'')
                            parse_supply_chain_data [] [] [] = Inr report"
    using report_compiled_in
    by (cases "create_summary_report ''03-Nov-2026 10:00'' (\<lambda>x. ''17.93'')
                 parse_supply_chain_data [] [] []") simp_all
  show ?thesis
    using f r quantities_compiled_in by blast
qed

text \<open>
  C1, as the code has it: the division by the issued count is not guarded. The classifier
  raises \<^verbatim>\<open>ZeroDivisionError\<close> exactly when the issued count is 0, and so does the
  summary renderer (in the PO completion rate); the error reaches the caller. The other
  two denominators raise nothing: with a planned total of 0 the production efficiency is
  rendered as nan, inf or -inf, and with no department the mean utilization is rendered
  as nan.
\<close>

theorem division_by_zero_outcomes:
  "(analyze_critical_issues d = Inl ZeroDivisionError \<longleftrightarrow>
      Count (PO_Issued (procurement d)) = 0) \<and>
   (create_summary_report report_date float_str d critical high medium =
      Inl ZeroDivisionError \<longleftrightarrow> Count (PO_Issued (procurement d)) = 0) \<and>
   (sum_list (map Planned_Qty (production d)) = 0 \<longrightarrow>
      format_f1 (production_efficiency d) \<in> {''nan'', ''inf'', ''-inf''}) \<and>
   (capacity d = [] \<longrightarrow> format_f1 (series_mean (map Utilization (capacity d))) = ''nan'')"
proof (intro conjI impI)
  show "analyze_critical_issues d = Inl ZeroDivisionError \<longleftrightarrow>
          Count (PO_Issued (procurement d)) = 0"
    by (rule analyze_ZeroDivisionError_iff)
  show "create_summary_report report_date float_str d critical high medium =
          Inl ZeroDivisionError \<longleftrightarrow> Count (PO_Issued (procurement d)) = 0"
    by (rule report_ZeroDivisionError_iff)
  show "format_f1 (production_efficiency d) \<in> {''nan'', ''inf'', ''-inf''}"
    if "sum_list (map Planned_Qty (production d)) = 0"
    by (simp only: efficiency_without_plan [OF that]) simp
  show "format_f1 (series_mean (map Utilization (capacity d))) = ''nan''"
    if "capacity d = []"
    by (simp add: that series_mean_def format_f1_def)
qed

theorem division_by_zero_outcomes_witness:
  "Count (PO_Issued (procurement (snapshot_with_counts 36 0))) = 0 \<and>
   analyze_critical_issues (snapshot_with_counts 36 0) = Inl ZeroDivisionError \<and>
   create_summary_report ''03-Nov-2026 10:00'' (\<lambda>x. ''17.93'') (snapshot_with_counts 36 0)
     [] [] [] = Inl ZeroDivisionError \<and>
   sum_list (map Planned_Qty (production snapshot_without_plan)) = 0 \<and>
   capacity snapshot_without_plan = [] \<and>
   format_f1 (production_efficiency snapshot_without_plan) \<in> {''nan'', ''inf'', ''-inf''} \<and>
   format_f1 (series_mean (map Utilization (capacity snapshot_without_plan))) = ''nan'' \<and>
   analyze_critical_issues snapshot_without_plan \<noteq> Inl ZeroDivisionError"
  using division_by_zero_outcomes [of "snapshot_with_counts 36 0" "''03-Nov-2026 10:00''"
      "\<lambda>x. ''17.93''" "[]" "[]" "[]"]
    division_by_zero_outcomes [of snapshot_without_plan "''03-Nov-2026 10:00''"
      "\<lambda>x. ''17.93''" "[]" "[]" "[]"]
  by (simp add: ratio_snapshot_with_counts snapshot_without_plan_simps)

text \<open>
  C1, as stated, fails: with an issued count of 0 the classifier raises the division
  error.
\<close>

theorem division_by_zero_counterexample:
  "analyze_critical_issues (snapshot_with_counts 36 0) = Inl ZeroDivisionError"
  by (simp add: analyze_critical_issues_eq snapshot_with_counts_def py_truediv_def)

text \<open>
  C7: the classifier does not mutate the snapshot, and a second call on the same snapshot
  yields the same issue lists. On a store that holds a snapshot at the address handed
  over, the call returns; the store after the call extends the store before it, so every
  object that existed before the call, the snapshot among them, is unchanged; the outcome
  read from the new store is the one of the classifier on the snapshot; and a second call,
  run on the store that the first one left, returns the same exception or three lists with
  the same items in the same order, and leaves the lists of the first call as they were.
\<close>

theorem classifier_idempotent:
  assumes "snapshot_at data s = Some d"
  shows "\<exists>res s1.
           analyze_critical_issues_store data s = Some (res, s1) \<and> prefix s s1 \<and>
           snapshot_at data s1 = Some d \<and>
           issue_lists res s1 = Some (analyze_critical_issues d) \<and>
           (\<exists>res2 s2.
              analyze_critical_issues_store data s1 = Some (res2, s2) \<and> prefix s1 s2 \<and>
              snapshot_at data s2 = Some d \<and>
              issue_lists res2 s2 = issue_lists res s1 \<and>
              issue_lists res s2 = issue_lists res s1)"
proof -
  from analyze_critical_issues_store_run [OF assms] obtain res s1
    where r1: "analyze_critical_issues_store data s = Some (res, s1)" and p1: "prefix s s1"
      and o1: "issue_lists res s1 = Some (analyze_critical_issues d)"
    by blast
  have d1: "snapshot_at data s1 = Some d"
    using p1 assms by (rule snapshot_at_prefix)
  from analyze_critical_issues_store_run [OF d1] obtain res2 s2
    where r2: "analyze_critical_issues_store data s1 = Some (res2, s2)" and p2: "prefix s1 s2"
      and o2: "issue_lists res2 s2 = Some (analyze_critical_issues d)"
    by blast
  have d2: "snapshot_at data s2 = Some d"
    using p2 d1 by (rule snapshot_at_prefix)
  have k: "issue_lists res s2 = issue_lists res s1"
  proof (cases res)
    case (Inl e)
    then show ?thesis
      by (simp add: issue_lists_def)
  next
    case (Inr t)
    obtain c h m where t: "t = (c, h, m)"
      by (cases t)
    from o1 Inr t obtain cs hs ms
      where i: "list_items c s1 = Some cs" "list_items h s1 = Some hs" "list_items m s1 = Some ms"
      by (auto simp add: issue_lists_def bind_eq_Some_conv)
    from p2 obtain u where u: "s2 = s1 @ u"
      by (auto simp add: prefix_def)
    have "list_items a s2 = Some xs" if "list_items a s1 = Some xs" for a xs
      using that unfolding u
      by (auto simp add: list_items_def get_object_def nth_append split: if_splits)
    with i show ?thesis
      by (simp add: Inr t issue_lists_def)
  qed
  have "\<exists>res2 s2.
          analyze_critical_issues_store data s1 = Some (res2, s2) \<and> prefix s1 s2 \<and>
          snapshot_at data s2 = Some d \<and>
          issue_lists res2 s2 = issue_lists res s1 \<and>
          issue_lists res s2 = issue_lists res s1"
    using r2 p2 d2 o2 o1 k by simp
  with r1 p1 d1 o1 show ?thesis
    by simp
qed

theorem classifier_idempotent_witness:
  "snapshot_at 0 compiled_in_store = Some parse_supply_chain_data \<and>
   (\<exists>res s1.
      analyze_critical_issues_store 0 compiled_in_store = Some (res, s1) \<and>
      prefix compiled_in_store s1 \<and>
      issue_lists res s1 = Some (analyze_critical_issues parse_supply_chain_data) \<and>
      (\<exists>res2 s2.
         analyze_critical_issues_store 0 s1 = Some (res2, s2) \<and> prefix s1 s2 \<and>
         issue_lists res2 s2 = issue_lists res s1))"
  using classifier_idempotent [OF snapshot_compiled_in_store] snapshot_compiled_in_store
  by blast



end
